theory Spec2Isabelle
  imports Main "HOL-Library.Word" "HOL-Library.Sublist"
begin

section \<open>PMail IMAP search: data model\<close>

text \<open>
  The Go value \<open>time.Time\<close> is an instant together with a location. The instant is kept
  as the seconds elapsed since January 1 of year 1, 00:00:00 UTC (the zero time of Go),
  with the nanoseconds within the second, and the location as a fixed offset in seconds
  east of UTC.
\<close>

record gotime =
  sec :: int
  nsec :: nat
  zoneOffset :: int

definition IsZero :: "gotime \<Rightarrow> bool" where
  "IsZero t = (sec t = 0 \<and> nsec t = 0)"

text \<open>\<open>t.Before(u)\<close> compares the instants; the locations play no part.\<close>

definition time_Before :: "gotime \<Rightarrow> gotime \<Rightarrow> bool" where
  "time_Before t u = (sec t < sec u \<or> (sec t = sec u \<and> nsec t < nsec u))"

text \<open>
  The triple \<open>(t.Year(), t.Month(), t.Day())\<close> is the calendar date of the wall clock in
  the location of \<open>t\<close>. Calendar dates are counted as days since the zero date, which is
  a bijection with year, month and day.
\<close>

definition civilDay :: "gotime \<Rightarrow> int" where
  "civilDay t = (sec t + zoneOffset t) div 86400"

text \<open>\<open>time.Date(y, m, d, 0, 0, 0, 0, loc)\<close>: midnight of that calendar date in \<open>loc\<close>.\<close>

definition time_Date :: "int \<Rightarrow> int \<Rightarrow> gotime" where
  "time_Date day loc = \<lparr>sec = day * 86400 - loc, nsec = 0, zoneOffset = loc\<rparr>"

definition truncateToDate :: "gotime \<Rightarrow> gotime" where
  "truncateToDate t = time_Date (civilDay t) (zoneOffset t)"

text \<open>
  \<open>imap.UIDSet\<close> and \<open>imap.SeqSet\<close> belong to the go-imap library; the search only ever
  calls their \<open>Contains\<close> method on a \<open>uint32\<close>, so a number set is kept as that method.
\<close>

type_synonym numSet = "32 word \<Rightarrow> bool"

text \<open>\<open>imap.Flag\<close> is a string type with the named constants below.\<close>

datatype flag =
  FlagSeen | FlagAnswered | FlagFlagged | FlagDeleted | FlagDraft | FlagJunk
  | FlagOther string

text \<open>\<open>imap.SearchCriteria\<close>, with the fields the search reads.\<close>

datatype criteria = Criteria
  (UID: "numSet list")
  (SeqNum: "numSet list")
  (Since: gotime)
  (Before: gotime)
  (SentSince: gotime)
  (SentBefore: gotime)
  (Header: "(string \<times> string) list")
  (Body: "string list")
  (Text: "string list")
  (Flag: "flag list")
  (NotFlag: "flag list")
  (Larger: int)
  (Smaller: int)
  (NotC: "criteria list")
  (OrC: "(criteria \<times> criteria) list")

text \<open>\<open>response.UserEmailUIDData\<close>: one entry of a mailbox's list.\<close>

record uidData =
  ID :: int
  SerialNumber :: int
  EmailID :: int
  IsRead :: int
  Status :: int

text \<open>\<open>models.Email\<close>: a stored message row; \<open>sql.NullString\<close> is an optional string.\<close>

record email =
  Id_email :: int
  Subject :: string
  FromAddress :: string
  FromName :: string
  To :: string
  Cc :: string
  Bcc :: string
  ReplyTo :: string
  Sender :: string
  Text_email :: "string option"
  Html :: "string option"
  CreateTime :: gotime
  SendDate :: gotime
  Size :: int

type_synonym error = string

text \<open>
  The store the search reads: \<open>GetUEListByUID ctx groupName 0 0 nil\<close> gives the list of a
  mailbox, and \<open>db.Instance.Table("email").In("id", ids).Find\<close> gives the rows or an
  error. Both live outside the search and are taken as they answer.
\<close>

record store =
  GetUEListByUID :: "string \<Rightarrow> uidData list"
  emailFind :: "int list \<Rightarrow> error + email list"

section \<open>The passes of the search\<close>

definition isEmptyCriteria :: "criteria \<Rightarrow> bool" where
  "isEmptyCriteria criteria =
     (length (UID criteria) = 0 \<and>
      length (SeqNum criteria) = 0 \<and>
      IsZero (Since criteria) \<and>
      IsZero (Before criteria) \<and>
      IsZero (SentSince criteria) \<and>
      IsZero (SentBefore criteria) \<and>
      length (Header criteria) = 0 \<and>
      length (Body criteria) = 0 \<and>
      length (Text criteria) = 0 \<and>
      length (Flag criteria) = 0 \<and>
      length (NotFlag criteria) = 0 \<and>
      Larger criteria = 0 \<and>
      Smaller criteria = 0 \<and>
      length (NotC criteria) = 0 \<and>
      length (OrC criteria) = 0)"

definition needsEmailData :: "criteria \<Rightarrow> bool" where
  "needsEmailData criteria =
     (\<not> IsZero (Since criteria) \<or>
      \<not> IsZero (Before criteria) \<or>
      \<not> IsZero (SentSince criteria) \<or>
      \<not> IsZero (SentBefore criteria) \<or>
      length (Header criteria) > 0 \<or>
      length (Body criteria) > 0 \<or>
      length (Text criteria) > 0 \<or>
      Larger criteria > 0 \<or>
      Smaller criteria > 0)"

text \<open>
  Every filtering loop of the source starts from an empty result and appends the items
  that pass, in the order of the list; the inner loop with \<open>break\<close> asks whether some set
  contains the number. \<open>imap.UID(item.ID)\<close> and \<open>uint32(item.SerialNumber)\<close> wrap.
\<close>

definition filterByUIDSets :: "uidData list \<Rightarrow> numSet list \<Rightarrow> uidData list" where
  "filterByUIDSets list uidSets =
     foldl (\<lambda>result item.
              if list_ex (\<lambda>uidSet. uidSet (word_of_int (ID item))) uidSets
              then result @ [item] else result) [] list"

definition filterBySeqNumSets :: "uidData list \<Rightarrow> numSet list \<Rightarrow> uidData list" where
  "filterBySeqNumSets list seqSets =
     foldl (\<lambda>result item.
              if list_ex (\<lambda>seqSet. seqSet (word_of_int (SerialNumber item))) seqSets
              then result @ [item] else result) [] list"

fun hasFlag :: "uidData \<Rightarrow> flag \<Rightarrow> bool" where
  "hasFlag item FlagSeen = (IsRead item = 1)"
| "hasFlag item FlagDeleted = (Status item = 3)"
| "hasFlag item FlagDraft = (Status item = 4)"
| "hasFlag item FlagJunk = (Status item = 5)"
| "hasFlag item FlagAnswered = False"
| "hasFlag item FlagFlagged = False"
| "hasFlag item (FlagOther s) = False"

definition filterByFlags :: "uidData list \<Rightarrow> flag list \<Rightarrow> flag list \<Rightarrow> uidData list" where
  "filterByFlags list flags notFlags =
     foldl (\<lambda>result item.
              let match = list_all (\<lambda>flag. hasFlag item flag) flags;
                  match = (if match then \<not> list_ex (\<lambda>flag. hasFlag item flag) notFlags
                           else match)
              in if match then result @ [item] else result) [] list"

subsection \<open>Predicates on the stored message\<close>

text \<open>
  \<open>strings.ToLower\<close> on the ASCII letters (the Go function also lowers the letters
  beyond ASCII), and \<open>strings.Contains\<close>.
\<close>

definition toLowerChar :: "char \<Rightarrow> char" where
  "toLowerChar c =
     (let n = (of_char c :: nat) in if 65 \<le> n \<and> n \<le> 90 then char_of (n + 32) else c)"

definition ToLower :: "string \<Rightarrow> string" where
  "ToLower s = map toLowerChar s"

fun Contains :: "string \<Rightarrow> string \<Rightarrow> bool" where
  "Contains [] substr = (substr = [])"
| "Contains (c # s) substr = (prefix substr (c # s) \<or> Contains s substr)"

definition matchesHeader :: "email \<Rightarrow> string \<Rightarrow> string \<Rightarrow> bool" where
  "matchesHeader email key0 value0 =
     (let key = ToLower key0; value = ToLower value0 in
      if key = ''subject'' then Contains (ToLower (Subject email)) value
      else if key = ''from'' then
        Contains (ToLower (FromAddress email)) value \<or> Contains (ToLower (FromName email)) value
      else if key = ''to'' then Contains (ToLower (To email)) value
      else if key = ''cc'' then Contains (ToLower (Cc email)) value
      else if key = ''bcc'' then Contains (ToLower (Bcc email)) value
      else if key = ''reply-to'' then Contains (ToLower (ReplyTo email)) value
      else if key = ''sender'' then Contains (ToLower (Sender email)) value
      else False)"

definition matchesBody :: "email \<Rightarrow> string \<Rightarrow> bool" where
  "matchesBody email pattern0 =
     (let pattern = ToLower pattern0 in
      if (case Text_email email of None \<Rightarrow> False | Some s \<Rightarrow> Contains (ToLower s) pattern)
      then True
      else if (case Html email of None \<Rightarrow> False | Some s \<Rightarrow> Contains (ToLower s) pattern)
      then True
      else False)"

definition matchesText :: "email \<Rightarrow> string \<Rightarrow> bool" where
  "matchesText email pattern0 =
     (let pattern = ToLower pattern0 in
      if Contains (ToLower (Subject email)) pattern then True
      else if Contains (ToLower (FromAddress email)) pattern then True
      else if Contains (ToLower (FromName email)) pattern then True
      else if Contains (ToLower (To email)) pattern then True
      else if Contains (ToLower (Cc email)) pattern then True
      else if Contains (ToLower (Bcc email)) pattern then True
      else matchesBody email pattern)"

definition matchesEmailCriteria :: "email \<Rightarrow> criteria \<Rightarrow> bool" where
  "matchesEmailCriteria email criteria =
     (if \<not> IsZero (Since criteria) \<and>
         time_Before (CreateTime email) (truncateToDate (Since criteria)) then False
      else if \<not> IsZero (Before criteria) \<and>
         \<not> time_Before (CreateTime email) (truncateToDate (Before criteria)) then False
      else if \<not> IsZero (SentSince criteria) \<and>
         time_Before (SendDate email) (truncateToDate (SentSince criteria)) then False
      else if \<not> IsZero (SentBefore criteria) \<and>
         \<not> time_Before (SendDate email) (truncateToDate (SentBefore criteria)) then False
      else if Larger criteria > 0 \<and> Size email \<le> Larger criteria then False
      else if Smaller criteria > 0 \<and> Size email \<ge> Smaller criteria then False
      else if list_ex (\<lambda>hf. \<not> matchesHeader email (fst hf) (snd hf)) (Header criteria) then False
      else if list_ex (\<lambda>pattern. \<not> matchesBody email pattern) (Body criteria) then False
      else if list_ex (\<lambda>pattern. \<not> matchesText email pattern) (Text criteria) then False
      else True)"

text \<open>
  \<open>filterWithEmailData\<close>: the rows of the candidates are fetched in one lookup; when the
  lookup fails the error is logged and the list is returned as it came. \<open>emailMap\<close> is
  the Go map from row id to row, a later row replacing an earlier one of the same id.
\<close>

definition filterWithEmailData :: "store \<Rightarrow> uidData list \<Rightarrow> criteria \<Rightarrow> uidData list" where
  "filterWithEmailData ctx list criteria =
     (if length list = 0 then list
      else
        let emailIDs = foldl (\<lambda>ids item. ids @ [EmailID item]) [] list in
        case emailFind ctx emailIDs of
          Inl err \<Rightarrow> list
        | Inr emails \<Rightarrow>
            let emailMap = foldl (\<lambda>m e. m(Id_email e \<mapsto> e)) Map.empty emails in
            foldl (\<lambda>result item.
                     case emailMap (EmailID item) of
                       None \<Rightarrow> result
                     | Some email \<Rightarrow>
                         if matchesEmailCriteria email criteria then result @ [item]
                         else result) [] list)"

section \<open>SearchEmails and the logical combinations\<close>

text \<open>
  \<open>SearchEmails\<close> returns the list and the Go \<open>error\<close> (here \<open>None\<close> for \<open>nil\<close>).
  \<open>applyNotCriteria\<close> and \<open>applyOrCriteria\<close> call it again on the children, which reads the
  mailbox list afresh from the store; the store does not change during a search. The
  sets of unique ids are Go maps from \<open>int\<close> to \<open>bool\<close>, whose lookup of a missing key gives
  \<open>false\<close>. The two maps between unique ids and sequence numbers that the source builds
  are never read, and are left out.
\<close>

function SearchEmails :: "store \<Rightarrow> string \<Rightarrow> criteria option \<Rightarrow> uidData list \<times> error option"
  and applyNotCriteria :: "store \<Rightarrow> string \<Rightarrow> uidData list \<Rightarrow> criteria \<Rightarrow> uidData list"
  and applyOrCriteria ::
    "store \<Rightarrow> string \<Rightarrow> uidData list \<Rightarrow> (criteria \<times> criteria) list \<Rightarrow> uidData list"
where
  "SearchEmails ctx groupName criteria =
     (let baseList = GetUEListByUID ctx groupName in
      if length baseList = 0 then (baseList, None)
      else case criteria of
        None \<Rightarrow> (baseList, None)
      | Some c \<Rightarrow>
          if isEmptyCriteria c then (baseList, None)
          else
            let baseList = (if length (UID c) > 0 then filterByUIDSets baseList (UID c)
                            else baseList);
                baseList = (if length (SeqNum c) > 0 then filterBySeqNumSets baseList (SeqNum c)
                            else baseList);
                baseList = (if needsEmailData c then filterWithEmailData ctx baseList c
                            else baseList);
                baseList = (if length (Flag c) > 0 \<or> length (NotFlag c) > 0
                            then filterByFlags baseList (Flag c) (NotFlag c)
                            else baseList);
                baseList = (if length (NotC c) > 0
                            then foldl (\<lambda>l notCriteria.
                                          applyNotCriteria ctx groupName l notCriteria)
                                   baseList (NotC c)
                            else baseList);
                baseList = (if length (OrC c) > 0
                            then applyOrCriteria ctx groupName baseList (OrC c)
                            else baseList)
            in (baseList, None))"
| "applyNotCriteria ctx groupName list notCriteria =
     (let matchedList = fst (SearchEmails ctx groupName (Some notCriteria));
          matchedUIDs = foldl (\<lambda>m item. m(ID item := True)) (\<lambda>_. False) matchedList
      in foldl (\<lambda>result item. if \<not> matchedUIDs (ID item) then result @ [item] else result)
           [] list)"
| "applyOrCriteria ctx groupName list orCriteria =
     (if length orCriteria = 0 then list
      else
        let currentUIDs = foldl (\<lambda>m item. m(ID item := True)) (\<lambda>_. False) list;
            resultUIDs =
              foldl (\<lambda>resultUIDs pair.
                       let matches1 = fst (SearchEmails ctx groupName (Some (fst pair)));
                           resultUIDs =
                             foldl (\<lambda>r item. if currentUIDs (ID item) then r(ID item := True)
                                              else r) resultUIDs matches1;
                           matches2 = fst (SearchEmails ctx groupName (Some (snd pair)))
                       in foldl (\<lambda>r item. if currentUIDs (ID item) then r(ID item := True)
                                           else r) resultUIDs matches2)
                (\<lambda>_. False) orCriteria
        in foldl (\<lambda>result item. if resultUIDs (ID item) then result @ [item] else result)
             [] list)"
  by pat_completeness auto

termination
proof -
  have size_NotC: "size nc < size c" if "nc \<in> set (NotC c)" for nc c
  proof (cases c)
    case (Criteria x1 x2 x3 x4 x5 x6 x7 x8 x9 x10 x11 x12 x13 x14 x15)
    with that have "nc \<in> set x14" by simp
    then have "size nc \<le> size_list size x14" by (rule size_list_estimation') simp
    with Criteria show ?thesis by simp
  qed
  have size_OrC: "size_list (size_prod size size) (OrC c) < size c" for c
    by (cases c) auto
  have size_pair:
    "size (fst pair) < size_list (size_prod size size) ors \<and>
     size (snd pair) < size_list (size_prod size size) ors"
    if "pair \<in> set ors" for pair :: "criteria \<times> criteria" and ors
  proof -
    have "size (fst pair) < size_prod size size pair" "size (snd pair) < size_prod size size pair"
      by (cases pair, simp)+
    then show ?thesis
      using that by (blast intro: size_list_estimation)
  qed
  show ?thesis
    apply (relation "measure (\<lambda>x. case x of
        Inl (ctx, g, co) \<Rightarrow> (case co of None \<Rightarrow> 0 | Some c \<Rightarrow> 2 * size c)
      | Inr (Inl (ctx, g, l, nc)) \<Rightarrow> 2 * size nc + 1
      | Inr (Inr (ctx, g, l, ors)) \<Rightarrow> 2 * size_list (size_prod size size) ors + 1)")
    subgoal by simp
    subgoal for ctx g criteria bl c x xa xb xc l nc using size_NotC[of nc c] by simp
    subgoal for ctx g criteria bl c using size_OrC[of c] by simp
    subgoal by simp
    subgoal for ctx g l ors x r pair using size_pair[of pair ors] by simp
    subgoal for ctx g l ors x r pair using size_pair[of pair ors] by simp
    done
qed

declare SearchEmails.simps [simp del] applyNotCriteria.simps [simp del]
  applyOrCriteria.simps [simp del]

section \<open>The SEARCH handler\<close>

datatype numKind = NumKindSeq | NumKindUID

text \<open>\<open>imap.SearchOptions\<close> and \<open>imap.SearchData\<close>, with the fields the handler touches.\<close>

record searchOptions =
  ReturnMin :: bool
  ReturnMax :: bool

record searchData =
  UID_data :: bool
  All :: "(32 word \<times> 32 word) list"
  Count :: "32 word"
  Min :: "32 word"
  Max :: "32 word"

text \<open>
  \<open>cast.ToUint32\<close> of the cast library on an \<open>int\<close>: a negative number is an error and
  gives zero, any other number is converted as \<open>uint32(i)\<close>.
\<close>

definition ToUint32 :: "int \<Rightarrow> 32 word" where
  "ToUint32 i = (if i < 0 then 0 else word_of_int i)"

definition Search ::
  "store \<Rightarrow> string \<Rightarrow> numKind \<Rightarrow> criteria option \<Rightarrow> searchOptions option \<Rightarrow> error + searchData"
where
  "Search ctx currentMailbox kind criteria options =
     (case SearchEmails ctx currentMailbox criteria of
        (retList, Some err) \<Rightarrow> Inl err
      | (retList, None) \<Rightarrow>
          let ret = \<lparr>UID_data = False, All = [], Count = 0, Min = 0, Max = 0\<rparr>;
              num = (\<lambda>data. if kind = NumKindSeq then ToUint32 (SerialNumber data)
                              else ToUint32 (ID data));
              rng = (\<lambda>data. if kind = NumKindSeq
                              then (ToUint32 (SerialNumber data), ToUint32 (SerialNumber data))
                              else (word_of_int (ID data), word_of_int (ID data)));
              idList = foldl (\<lambda>idList data. idList @ [rng data]) [] retList;
              ret = (if kind = NumKindSeq then ret else ret\<lparr>UID_data := True\<rparr>);
              ret = ret\<lparr>All := idList\<rparr>;
              ret = ret\<lparr>Count := of_nat (length retList)\<rparr>;
              ret = (case options of
                       None \<Rightarrow> ret
                     | Some opts \<Rightarrow>
                         let ret =
                               (if ReturnMin opts \<and> length retList > 0
                                then ret\<lparr>Min := foldl (\<lambda>m data. if num data < m then num data
                                                                  else m)
                                                    (num (hd retList)) retList\<rparr>
                                else ret)
                         in if ReturnMax opts \<and> length retList > 0
                            then ret\<lparr>Max := foldl (\<lambda>m data. if num data > m then num data
                                                              else m)
                                                (num (hd retList)) retList\<rparr>
                            else ret)
          in Inr ret)"

section \<open>FETCH: data model\<close>

text \<open>
  \<open>parsemail.User\<close>, \<open>parsemail.Attachment\<close> and \<open>parsemail.Email\<close>. A pointer that the
  source tests against \<open>nil\<close> is an option. The methods of the parsed message
  (\<open>BuildBytes\<close>, \<open>BuildPart\<close>, \<open>BuildTo2String\<close>, \<open>BuildCc2String\<close>, \<open>BuildBcc2String\<close>) live
  outside these files; the record holds what they return.
\<close>

record user =
  Name_user :: string
  EmailAddress :: string

record attachment =
  Filename :: string
  ContentType :: string
  Content :: string

record parsedEmail =
  Sender_p :: "user option"
  ReplyTo_p :: "user option list"
  To_p :: "user option list"
  Cc_p :: "user option list"
  Bcc_p :: "user option list"
  HTML :: string
  Text_p :: string
  Attachments :: "attachment list"
  BuildBytes :: string
  BuildPart :: "int list \<Rightarrow> string option"
  BuildTo2String :: string
  BuildCc2String :: string
  BuildBcc2String :: string

text \<open>\<open>response.EmailResponseData\<close>: the stored row with the fields of the mailbox entry.\<close>

record emailResponseData =
  Email :: email
  IsRead_r :: int
  SerialNumber_r :: int
  UeId :: int

record address =
  Name :: string
  Mailbox :: string
  Host :: string

record envelope =
  Date_env :: gotime
  Subject_env :: string
  From_env :: "address list"
  Sender_env :: "address list"
  ReplyTo_env :: "address list"
  To_env :: "address list"
  Cc_env :: "address list"
  Bcc_env :: "address list"
  MessageID :: string

text \<open>
  \<open>imap.BodyStructure\<close>: a single part (type, subtype, parameters, id, encoding, size, the
  line count of a text part, the disposition of its extension data) or a multipart
  (subtype, children, whether extension data is present).
\<close>

datatype disposition = Disposition string "(string \<times> string) list"

datatype bodyStructure =
  BodyStructureSinglePart string string "(string \<times> string) list" string string "32 word"
    "int option" "disposition option"
| BodyStructureMultiPart string "bodyStructure list" bool

datatype partSpecifier =
  PartSpecifierNone | PartSpecifierHeader | PartSpecifierMIME | PartSpecifierText

text \<open>\<open>imap.FetchItemBodySection\<close> and \<open>imap.FetchOptions\<close>.\<close>

record fetchItemBodySection =
  Specifier :: partSpecifier
  Part :: "int list"
  HeaderFields :: "string list"
  Peek :: bool

record fetchOptions =
  UID_opt :: bool
  Envelope :: bool
  BodyStructure :: "bool option"
  RFC822Size :: bool
  Flags :: bool
  InternalDate :: bool
  BodySection :: "fetchItemBodySection list"

text \<open>
  What the session reads from outside: the configured domain, the Q-encoding of the
  \<open>mime\<close> package, the RFC 1123 rendering of a time, the parser of a stored row, and the
  list of messages of a range (\<open>list.GetEmailListByGroup\<close>).
\<close>

record fetchEnv =
  Domain :: string
  QEncode :: "string \<Rightarrow> string"
  FormatRFC1123Z :: "gotime \<Rightarrow> string"
  NewEmailFromModel :: "email \<Rightarrow> parsedEmail"
  GetEmailListByGroup :: "string \<Rightarrow> int \<Rightarrow> int \<Rightarrow> bool \<Rightarrow> emailResponseData list"

text \<open>
  The calls a FETCH makes on the response writer and on the store, in order. A body
  section is the call of \<open>WriteBodySection\<close> with its announced size, and the bytes written
  to it. \<open>Panic\<close> ends a trace: the dereference of a \<open>nil\<close> pointer.
\<close>

datatype event =
  CreateMessage "32 word"
| WriteUID "32 word"
| WriteEnvelope envelope
| WriteBodyStructure bodyStructure
| WriteRFC822Size int
| WriteFlags "flag list"
| WriteInternalDate gotime
| MakeRead int bool
| WriteBodySection fetchItemBodySection int string
| Close
| Panic

section \<open>FETCH: envelope and body structure\<close>

definition CRLF :: string where
  "CRLF = [CHR 0x0D, CHR 0x0A]"

text \<open>\<open>strings.LastIndex\<close> and \<open>strings.IndexByte\<close> for one byte: \<open>-1\<close> when it is absent.\<close>

definition LastIndex :: "string \<Rightarrow> char \<Rightarrow> int" where
  "LastIndex s c =
     (case filter (\<lambda>i. s ! i = c) (rev [0..<length s]) of [] \<Rightarrow> -1 | i # _ \<Rightarrow> int i)"

definition IndexByte :: "string \<Rightarrow> char \<Rightarrow> int" where
  "IndexByte s c =
     (case filter (\<lambda>i. s ! i = c) [0..<length s] of [] \<Rightarrow> -1 | i # _ \<Rightarrow> int i)"

text \<open>The verb \<open>%d\<close> of \<open>fmt\<close>.\<close>

fun digitsOf :: "nat \<Rightarrow> string" where
  "digitsOf n =
     (if n < 10 then [''0123456789'' ! n]
      else digitsOf (n div 10) @ [''0123456789'' ! (n mod 10)])"

declare digitsOf.simps [simp del]

definition itoa :: "int \<Rightarrow> string" where
  "itoa i = (if i < 0 then CHR ''-'' # digitsOf (nat (- i)) else digitsOf (nat i))"

definition userToAddress :: "user option \<Rightarrow> address" where
  "userToAddress u =
     (case u of
        None \<Rightarrow> \<lparr>Name = [], Mailbox = [], Host = []\<rparr>
      | Some u \<Rightarrow>
          let at = LastIndex (EmailAddress u) CHR ''@'' in
          if at \<ge> 0
          then \<lparr>Name = Name_user u, Mailbox = take (nat at) (EmailAddress u),
                Host = drop (nat (at + 1)) (EmailAddress u)\<rparr>
          else \<lparr>Name = Name_user u, Mailbox = EmailAddress u, Host = []\<rparr>)"

definition usersToAddresses :: "user option list \<Rightarrow> address list" where
  "usersToAddresses users =
     (if length users = 0 then []
      else foldl (\<lambda>addrs u.
                    case u of
                      None \<Rightarrow> addrs
                    | Some v \<Rightarrow> if EmailAddress v \<noteq> [] then addrs @ [userToAddress u]
                               else addrs) [] users)"

definition buildEnvelope :: "fetchEnv \<Rightarrow> emailResponseData \<Rightarrow> parsedEmail \<Rightarrow> envelope" where
  "buildEnvelope env email traEmail =
     (let from =
            (if FromAddress (Email email) \<noteq> [] then
               let at = LastIndex (FromAddress (Email email)) CHR ''@'' in
               if at \<ge> 0
               then [\<lparr>Name = FromName (Email email),
                      Mailbox = take (nat at) (FromAddress (Email email)),
                      Host = drop (nat (at + 1)) (FromAddress (Email email))\<rparr>]
               else [\<lparr>Name = FromName (Email email), Mailbox = FromAddress (Email email),
                      Host = []\<rparr>]
             else []);
          sender =
            (case Sender_p traEmail of
               None \<Rightarrow> from
             | Some u \<Rightarrow> if EmailAddress u \<noteq> [] then [userToAddress (Sender_p traEmail)]
                        else from);
          replyTo =
            (if length (ReplyTo_p traEmail) > 0 then usersToAddresses (ReplyTo_p traEmail)
             else from);
          messageID = ''<'' @ itoa (Id_email (Email email)) @ ''@'' @ Domain env @ ''>''
      in \<lparr>Date_env = CreateTime (Email email),
          Subject_env = Subject (Email email),
          From_env = from,
          Sender_env = sender,
          ReplyTo_env = replyTo,
          To_env = usersToAddresses (To_p traEmail),
          Cc_env = usersToAddresses (Cc_p traEmail),
          Bcc_env = usersToAddresses (Bcc_p traEmail),
          MessageID = messageID\<rparr>)"

definition bsTextPlain :: "32 word \<Rightarrow> int \<Rightarrow> bodyStructure" where
  "bsTextPlain size_b numLines =
     BodyStructureSinglePart ''text'' ''plain'' [(''charset'', ''utf-8'')] [] ''base64'' size_b
       (Some numLines) None"

definition bsTextHTML :: "32 word \<Rightarrow> int \<Rightarrow> bodyStructure" where
  "bsTextHTML size_b numLines =
     BodyStructureSinglePart ''text'' ''html'' [(''charset'', ''utf-8'')] [] ''base64'' size_b
       (Some numLines) None"

definition bsAttachment :: "string \<Rightarrow> string \<Rightarrow> 32 word \<Rightarrow> string \<Rightarrow> bodyStructure" where
  "bsAttachment filename mime size_b encoding =
     (let slash = IndexByte mime CHR ''/'';
          mt = (if slash > 0 then take (nat slash) mime else ''application'');
          st = (if slash > 0 then drop (nat (slash + 1)) mime else ''octet-stream'')
      in BodyStructureSinglePart mt st [(''name'', filename)] [] encoding size_b None
           (Some (Disposition ''attachment'' [(''filename'', filename)])))"

definition bsAlternative :: "bodyStructure option \<Rightarrow> bodyStructure option \<Rightarrow> bodyStructure" where
  "bsAlternative text html =
     (let children = (case text of None \<Rightarrow> [] | Some t \<Rightarrow> [t]);
          children = (case html of None \<Rightarrow> children | Some h \<Rightarrow> children @ [h]);
          children = (if length children = 0 then children @ [bsTextPlain 0 0] else children)
      in BodyStructureMultiPart ''alternative'' children True)"

definition bsMixedWithAttachments ::
  "bodyStructure \<Rightarrow> bool \<Rightarrow> bodyStructure list \<Rightarrow> bodyStructure"
where
  "bsMixedWithAttachments alt extend_b atts =
     (let children = [alt];
          children = children @ atts
      in BodyStructureMultiPart ''mixed'' children extend_b)"

text \<open>\<open>bytes.Count(b, "\n")\<close>.\<close>

definition countNewlines :: "string \<Rightarrow> int" where
  "countNewlines b = int (length (filter (\<lambda>c. c = CHR 0x0A) b))"

text \<open>
  The body structure that \<open>write\<close> hands to \<open>WriteBodyStructure\<close> (the block under
  \<open>options.BodyStructure != nil\<close>), for the parsed message and the \<open>Extended\<close> option.
\<close>

definition buildBodyStructure :: "parsedEmail \<Rightarrow> bool \<Rightarrow> bodyStructure" where
  "buildBodyStructure traEmail extended =
     (let html = (if length (HTML traEmail) > 0
                  then Some (bsTextHTML (of_nat (length (HTML traEmail)))
                               (countNewlines (HTML traEmail) + 1))
                  else None);
          text = (if length (Text_p traEmail) > 0
                  then Some (bsTextPlain (of_nat (length (Text_p traEmail)))
                               (countNewlines (Text_p traEmail) + 1))
                  else None);
          alt = bsAlternative text html;
          attrs = foldl (\<lambda>attrs attachment.
                           attrs @ [bsAttachment (Filename attachment) (ContentType attachment)
                                      (of_nat (length (Content attachment))) ''base64''])
                    [] (Attachments traEmail)
      in bsMixedWithAttachments alt extended attrs)"

section \<open>FETCH: body sections and the response of one message\<close>

text \<open>
  \<open>strings.SplitN\<close> for a separator that is not empty: \<open>Cut\<close> splits at the first
  occurrence of the separator.
\<close>

fun Cut :: "string \<Rightarrow> string \<Rightarrow> (string \<times> string) option" where
  "Cut [] sep = (if sep = [] then Some ([], []) else None)"
| "Cut (c # s) sep =
     (if prefix sep (c # s) then Some ([], drop (length sep) (c # s))
      else case Cut s sep of None \<Rightarrow> None | Some (a, b) \<Rightarrow> Some (c # a, b))"

fun SplitN :: "string \<Rightarrow> string \<Rightarrow> nat \<Rightarrow> string list" where
  "SplitN s sep 0 = []"
| "SplitN s sep (Suc 0) = [s]"
| "SplitN s sep (Suc (Suc n)) =
     (case Cut s sep of None \<Rightarrow> [s] | Some (a, rest) \<Rightarrow> a # SplitN rest sep (Suc n))"

text \<open>
  One iteration of the loop over the requested header fields: the text appended to the
  buffer, or \<open>None\<close> when \<open>traEmail.ReplyTo[0]\<close> is a \<open>nil\<close> pointer and its field is read.
\<close>

definition writeHeaderField ::
  "fetchEnv \<Rightarrow> emailResponseData \<Rightarrow> parsedEmail \<Rightarrow> string \<Rightarrow> string \<Rightarrow> string option"
where
  "writeHeaderField env email traEmail emailContent field =
     (let fieldLower = ToLower field in
      if fieldLower = ''date'' then
        Some (''Date: '' @ FormatRFC1123Z env (CreateTime (Email email)) @ CRLF)
      else if fieldLower = ''subject'' then
        Some (''Subject: '' @ QEncode env (Subject (Email email)) @ CRLF)
      else if fieldLower = ''from'' then
        (if FromName (Email email) \<noteq> []
         then Some (''From: '' @ QEncode env (FromName (Email email)) @ '' <'' @
                    FromAddress (Email email) @ ''>'' @ CRLF)
         else Some (''From: '' @ FromAddress (Email email) @ CRLF))
      else if fieldLower = ''sender'' then
        (if FromName (Email email) \<noteq> []
         then Some (''Sender: '' @ QEncode env (FromName (Email email)) @ '' <'' @
                    FromAddress (Email email) @ ''>'' @ CRLF)
         else Some (''Sender: '' @ FromAddress (Email email) @ CRLF))
      else if fieldLower = ''reply-to'' then
        (case ReplyTo_p traEmail of
           [] \<Rightarrow> Some []
         | None # _ \<Rightarrow> None
         | Some u # _ \<Rightarrow>
             if EmailAddress u \<noteq> [] then
               (if Name_user u \<noteq> []
                then Some (''Reply-To: '' @ QEncode env (Name_user u) @ '' <'' @
                           EmailAddress u @ ''>'' @ CRLF)
                else Some (''Reply-To: '' @ EmailAddress u @ CRLF))
             else Some [])
      else if fieldLower = ''to'' then
        (let toStr = BuildTo2String traEmail in
         if toStr \<noteq> [] then Some (''To: '' @ toStr @ CRLF) else Some [])
      else if fieldLower = ''cc'' then
        (if length (Cc_p traEmail) > 0 then Some (''Cc: '' @ BuildCc2String traEmail @ CRLF)
         else Some [])
      else if fieldLower = ''bcc'' then
        (if length (Bcc_p traEmail) > 0 then Some (''Bcc: '' @ BuildBcc2String traEmail @ CRLF)
         else Some [])
      else if fieldLower = ''message-id'' then
        Some (''Message-ID: <'' @ itoa (Id_email (Email email)) @ ''@'' @ Domain env @ ''>'' @
              CRLF)
      else if fieldLower = ''content-type'' then
        (let args = SplitN emailContent CRLF 3 in
         if length args \<ge> 2 then Some (args ! 0 @ args ! 1 @ CRLF) else Some [])
      else if fieldLower \<in> set [''references'', ''in-reply-to'', ''thread-topic'',
                                ''thread-index'', ''x-priority'', ''x-mailer'',
                                ''x-android-message-id''] then
        Some []
      else Some [])"

text \<open>
  The header block of a section: the fields asked for, or the default list when none is
  named, each appended in turn, then the empty line.
\<close>

definition headerBlock ::
  "fetchEnv \<Rightarrow> emailResponseData \<Rightarrow> parsedEmail \<Rightarrow> string \<Rightarrow> string list \<Rightarrow> string option"
where
  "headerBlock env email traEmail emailContent headerFields =
     (let fields = (if length headerFields = 0
                    then [''date'', ''subject'', ''from'', ''to'', ''cc'', ''message-id'',
                          ''content-type'']
                    else headerFields);
          b = foldl (\<lambda>b field.
                       case b of
                         None \<Rightarrow> None
                       | Some written \<Rightarrow>
                           (case writeHeaderField env email traEmail emailContent field of
                              None \<Rightarrow> None
                            | Some t \<Rightarrow> Some (written @ t)))
                (Some []) fields
      in case b of None \<Rightarrow> None | Some written \<Rightarrow> Some (written @ CRLF))"

text \<open>One iteration of the loop over \<open>options.BodySection\<close>.\<close>

definition writeSection ::
  "fetchEnv \<Rightarrow> emailResponseData \<Rightarrow> parsedEmail \<Rightarrow> fetchItemBodySection \<Rightarrow> event list"
where
  "writeSection env email traEmail section =
     (if \<not> Peek section then [MakeRead (Id_email (Email email)) True] else []) @
     (let emailContent = BuildBytes traEmail in
      if length (HeaderFields section) > 0 \<or> Specifier section = PartSpecifierHeader then
        (case headerBlock env email traEmail emailContent (HeaderFields section) of
           None \<Rightarrow> [Panic]
         | Some b \<Rightarrow> [WriteBodySection section (int (length b)) b])
      else if Specifier section = PartSpecifierNone \<or> Specifier section = PartSpecifierText then
        (if length (Part section) \<ge> 1 then
           (case BuildPart traEmail (Part section) of
              Some partContent \<Rightarrow>
                [WriteBodySection section (int (length partContent)) partContent]
            | None \<Rightarrow> [WriteBodySection section 0 []])
         else [WriteBodySection section (int (length emailContent)) emailContent])
      else [])"

text \<open>Steps run in order; a step that panics ends the run.\<close>

fun runSteps :: "event list list \<Rightarrow> event list" where
  "runSteps [] = []"
| "runSteps (step # steps) = (if Panic \<in> set step then step else step @ runSteps steps)"

text \<open>The body of the loop of \<open>write\<close> over the messages, for one message.\<close>

definition writeEmail :: "fetchEnv \<Rightarrow> fetchOptions \<Rightarrow> emailResponseData \<Rightarrow> event list" where
  "writeEmail env options email =
     (let traEmail = NewEmailFromModel env (Email email) in
      runSteps
        ([[CreateMessage (ToUint32 (SerialNumber_r email))],
          (if UID_opt options then [WriteUID (word_of_int (UeId email))] else []),
          (if Envelope options then [WriteEnvelope (buildEnvelope env email traEmail)] else []),
          (case BodyStructure options of
             None \<Rightarrow> []
           | Some extended \<Rightarrow> [WriteBodyStructure (buildBodyStructure traEmail extended)]),
          (if RFC822Size options then [WriteRFC822Size (int (length (BuildBytes traEmail)))]
           else []),
          (if Flags options
           then (if IsRead_r email = 1 then [WriteFlags [FlagSeen]] else [WriteFlags []])
           else []),
          (if InternalDate options then [WriteInternalDate (CreateTime (Email email))] else [])]
         @ map (writeSection env email traEmail) (BodySection options)
         @ [[Close]]))"

text \<open>The function \<open>write\<close> of the source.\<close>

definition write_fetch :: "fetchEnv \<Rightarrow> emailResponseData list \<Rightarrow> fetchOptions \<Rightarrow> event list" where
  "write_fetch env emailList options = runSteps (map (writeEmail env options) emailList)"

text \<open>
  The FETCH handler: the ranges of a sequence set or of a unique-id set, one call of
  \<open>write\<close> for the messages of each range.
\<close>

datatype numSetArg = SeqSet "(32 word \<times> 32 word) list" | UIDSet "(32 word \<times> 32 word) list"

definition Fetch :: "fetchEnv \<Rightarrow> string \<Rightarrow> numSetArg \<Rightarrow> fetchOptions \<Rightarrow> event list" where
  "Fetch env currentMailbox numSet options =
     (case numSet of
        SeqSet seqSet \<Rightarrow>
          runSteps (map (\<lambda>seq. write_fetch env
                                  (GetEmailListByGroup env currentMailbox (uint (fst seq))
                                     (uint (snd seq)) False) options) seqSet)
      | UIDSet uidSet \<Rightarrow>
          runSteps (map (\<lambda>uid. write_fetch env
                                  (GetEmailListByGroup env currentMailbox (uint (fst uid))
                                     (uint (snd uid)) True) options) uidSet))"

section \<open>Criteria literals\<close>

text \<open>
  The zero value \<open>time.Time{}\<close>, the zero value \<open>imap.SearchCriteria{}\<close>, and the
  criteria with one field set that the statements below speak about: one \<open>Not\<close> child,
  one set of unique ids, only \<open>Or\<close> pairs, only a \<open>Since\<close> or a \<open>Before\<close> date. \<open>withoutOr\<close>
  is a node with its \<open>Or\<close> field cleared.
\<close>

definition zeroTime :: gotime where
  "zeroTime = \<lparr>sec = 0, nsec = 0, zoneOffset = 0\<rparr>"

definition emptyCriteria :: criteria where
  "emptyCriteria =
     Criteria [] [] zeroTime zeroTime zeroTime zeroTime [] [] [] [] [] 0 0 [] []"

definition criteriaNot :: "criteria \<Rightarrow> criteria" where
  "criteriaNot c =
     Criteria [] [] zeroTime zeroTime zeroTime zeroTime [] [] [] [] [] 0 0 [c] []"

definition withoutOr :: "criteria \<Rightarrow> criteria" where
  "withoutOr c =
     Criteria (UID c) (SeqNum c) (Since c) (Before c) (SentSince c) (SentBefore c) (Header c)
       (Body c) (Text c) (Flag c) (NotFlag c) (Larger c) (Smaller c) (NotC c) []"

definition criteriaUID :: "numSet \<Rightarrow> criteria" where
  "criteriaUID uidSet =
     Criteria [uidSet] [] zeroTime zeroTime zeroTime zeroTime [] [] [] [] [] 0 0 [] []"

definition criteriaOr :: "(criteria \<times> criteria) list \<Rightarrow> criteria" where
  "criteriaOr pairs =
     Criteria [] [] zeroTime zeroTime zeroTime zeroTime [] [] [] [] [] 0 0 [] pairs"

definition criteriaSince :: "gotime \<Rightarrow> criteria" where
  "criteriaSince t =
     Criteria [] [] t zeroTime zeroTime zeroTime [] [] [] [] [] 0 0 [] []"

definition criteriaBefore :: "gotime \<Rightarrow> criteria" where
  "criteriaBefore t =
     Criteria [] [] zeroTime t zeroTime zeroTime [] [] [] [] [] 0 0 [] []"

section \<open>Example inputs\<close>

text \<open>A mailbox of two messages, on a store whose lookup of the rows fails.\<close>

definition exampleList :: "uidData list" where
  "exampleList =
     [\<lparr>ID = 10, SerialNumber = 1, EmailID = 7, IsRead = 0, Status = 0\<rparr>,
      \<lparr>ID = 11, SerialNumber = 2, EmailID = 8, IsRead = 1, Status = 0\<rparr>]"

definition exampleStore :: store where
  "exampleStore = \<lparr>GetUEListByUID = (\<lambda>_. exampleList), emailFind = (\<lambda>_. Inl ''lookup failed'')\<rparr>"

text \<open>
  A node of two \<open>Or\<close> pairs: unique id 10 or 10, and unique id 11 or 11 (the command
  \<open>SEARCH OR UID 10 UID 10 OR UID 11 UID 11\<close>).
\<close>

definition exampleOrNode :: criteria where
  "exampleOrNode =
     criteriaOr [(criteriaUID (\<lambda>uid. uid = 10), criteriaUID (\<lambda>uid. uid = 10)),
                 (criteriaUID (\<lambda>uid. uid = 11), criteriaUID (\<lambda>uid. uid = 11))]"

text \<open>
  A stored message delivered on 2 January 2024 at 00:30 in a zone eight hours east of
  UTC, and the date 2 January 2024 as the parser of the search command gives it
  (midnight, UTC). The instants count seconds from 1 January of year 1.
\<close>

definition exampleEmail :: email where
  "exampleEmail =
     \<lparr>Id_email = 7, Subject = ''Invoice'', FromAddress = ''a@b.com'', FromName = ''A'',
      To = ''c@d.com'', Cc = [], Bcc = [], ReplyTo = [], Sender = [],
      Text_email = Some ''hi'', Html = None,
      CreateTime = \<lparr>sec = 63839723400, nsec = 0, zoneOffset = 28800\<rparr>,
      SendDate = \<lparr>sec = 63839723400, nsec = 0, zoneOffset = 28800\<rparr>,
      Size = 2\<rparr>"

definition exampleDate :: gotime where
  "exampleDate = \<lparr>sec = 63839750400, nsec = 0, zoneOffset = 0\<rparr>"

text \<open>
  The parsed form of that message (a plain text body, no attachment), its entry in the
  mailbox, the session's surroundings, and a FETCH of it with two body sections that
  are not marked peek.
\<close>

definition exampleParsed :: parsedEmail where
  "exampleParsed =
     \<lparr>Sender_p = None, ReplyTo_p = [], To_p = [Some \<lparr>Name_user = ''C'', EmailAddress = ''c@d.com''\<rparr>],
      Cc_p = [], Bcc_p = [], HTML = [], Text_p = ''hi'', Attachments = [],
      BuildBytes = ''Content-Type: text/plain;'' @ CRLF @ '' charset=utf-8'' @ CRLF @ CRLF @ ''hi'',
      BuildPart = (\<lambda>_. None), BuildTo2String = ''C <c@d.com>'', BuildCc2String = [],
      BuildBcc2String = []\<rparr>"

definition exampleResponse :: emailResponseData where
  "exampleResponse = \<lparr>Email = exampleEmail, IsRead_r = 0, SerialNumber_r = 1, UeId = 10\<rparr>"

definition exampleEnv :: fetchEnv where
  "exampleEnv =
     \<lparr>Domain = ''example.com'', QEncode = (\<lambda>s. s),
      FormatRFC1123Z = (\<lambda>_. ''Tue, 02 Jan 2024 00:30:00 +0800''),
      NewEmailFromModel = (\<lambda>_. exampleParsed),
      GetEmailListByGroup = (\<lambda>_ _ _ _. [exampleResponse])\<rparr>"

definition exampleSection :: fetchItemBodySection where
  "exampleSection = \<lparr>Specifier = PartSpecifierNone, Part = [], HeaderFields = [], Peek = False\<rparr>"

definition exampleOptions :: fetchOptions where
  "exampleOptions =
     \<lparr>UID_opt = True, Envelope = False, BodyStructure = None, RFC822Size = False,
      Flags = True, InternalDate = False, BodySection = [exampleSection, exampleSection]\<rparr>"

text \<open>The ten header fields that the writer of header blocks recognises.\<close>

definition tenFields :: "string list" where
  "tenFields = [''date'', ''subject'', ''from'', ''sender'', ''reply-to'', ''to'', ''cc'', ''bcc'',
                ''message-id'', ''content-type'']"

section \<open>The passes are filters\<close>

lemma foldl_append_filter:
  "foldl (\<lambda>result item. if P item then result @ [item] else result) acc xs = acc @ filter P xs"
  by (induction xs arbitrary: acc) simp_all

lemma foldl_mark:
  "foldl (\<lambda>m item. m(ID item := True)) m0 xs k = (m0 k \<or> k \<in> ID ` set xs)"
  by (induction xs arbitrary: m0) auto

lemma foldl_mark_if:
  "foldl (\<lambda>r item. if cur (ID item) then r(ID item := True) else r) r0 xs k
     = (r0 k \<or> (cur k \<and> k \<in> ID ` set xs))"
  by (induction xs arbitrary: r0) auto

lemma filterByUIDSets_filter:
  "filterByUIDSets list uidSets =
     filter (\<lambda>item. list_ex (\<lambda>uidSet. uidSet (word_of_int (ID item))) uidSets) list"
  unfolding filterByUIDSets_def by (simp add: foldl_append_filter)

lemma filterBySeqNumSets_filter:
  "filterBySeqNumSets list seqSets =
     filter (\<lambda>item. list_ex (\<lambda>seqSet. seqSet (word_of_int (SerialNumber item))) seqSets) list"
  unfolding filterBySeqNumSets_def by (simp add: foldl_append_filter)

lemma filterByFlags_filter:
  "filterByFlags list flags notFlags =
     filter (\<lambda>item. list_all (hasFlag item) flags \<and> \<not> list_ex (hasFlag item) notFlags) list"
proof -
  have "(\<lambda>result item.
           let match = list_all (\<lambda>flag. hasFlag item flag) flags;
               match = (if match then \<not> list_ex (\<lambda>flag. hasFlag item flag) notFlags else match)
           in if match then result @ [item] else result)
      = (\<lambda>result item. if list_all (hasFlag item) flags \<and> \<not> list_ex (hasFlag item) notFlags
                         then result @ [item] else result)"
    by (auto simp: Let_def fun_eq_iff)
  then show ?thesis
    unfolding filterByFlags_def by (simp add: foldl_append_filter)
qed

lemma foldl_emailIDs: "foldl (\<lambda>ids item. ids @ [EmailID item]) acc list = acc @ map EmailID list"
  by (induction list arbitrary: acc) simp_all

lemma foldl_case_filter:
  "foldl (\<lambda>result item. case m (EmailID item) of None \<Rightarrow> result
            | Some email \<Rightarrow> if Q email then result @ [item] else result) acc xs
   = acc @ filter (\<lambda>item. case m (EmailID item) of None \<Rightarrow> False | Some email \<Rightarrow> Q email) xs"
  by (induction xs arbitrary: acc) (simp_all split: option.split)

lemma filterWithEmailData_cases:
  "filterWithEmailData ctx list criteria =
     (case emailFind ctx (map EmailID list) of
        Inl err \<Rightarrow> list
      | Inr emails \<Rightarrow>
          filter (\<lambda>item. case foldl (\<lambda>m e. m(Id_email e \<mapsto> e)) Map.empty emails (EmailID item) of
                            None \<Rightarrow> False
                          | Some email \<Rightarrow> matchesEmailCriteria email criteria) list)"
proof (cases "list = []")
  case True
  then show ?thesis by (simp add: filterWithEmailData_def split: sum.split)
next
  case False
  show ?thesis
  proof (cases "emailFind ctx (map EmailID list)")
    case (Inl err)
    with False show ?thesis
      by (simp add: filterWithEmailData_def foldl_emailIDs Let_def)
  next
    case (Inr emails)
    with False show ?thesis
      by (simp add: filterWithEmailData_def foldl_emailIDs Let_def
            foldl_case_filter[where m = "foldl (\<lambda>m e. m(Id_email e \<mapsto> e)) Map.empty emails"])
  qed
qed

lemma filterWithEmailData_subseq: "subseq (filterWithEmailData ctx list criteria) list"
  by (simp add: filterWithEmailData_cases split: sum.split)

lemma applyNotCriteria_filter:
  "applyNotCriteria ctx groupName list notCriteria =
     filter (\<lambda>item. ID item \<notin> ID ` set (fst (SearchEmails ctx groupName (Some notCriteria)))) list"
  by (subst applyNotCriteria.simps) (simp add: Let_def foldl_append_filter foldl_mark)

lemma foldl_orPairs:
  "foldl (\<lambda>resultUIDs pair.
            foldl (\<lambda>r item. if cur (ID item) then r(ID item := True) else r)
              (foldl (\<lambda>r item. if cur (ID item) then r(ID item := True) else r)
                 resultUIDs (fst (SearchEmails ctx groupName (Some (fst pair)))))
              (fst (SearchEmails ctx groupName (Some (snd pair))))) r0 ors k
   = (r0 k \<or> (cur k \<and> (\<exists>pair\<in>set ors.
        k \<in> ID ` set (fst (SearchEmails ctx groupName (Some (fst pair)))) \<union>
            ID ` set (fst (SearchEmails ctx groupName (Some (snd pair)))))))"
  by (induction ors arbitrary: r0) (auto simp: foldl_mark_if)

lemma applyOrCriteria_filter:
  "applyOrCriteria ctx groupName list orCriteria =
     (if length orCriteria = 0 then list
      else filter (\<lambda>item. \<exists>pair\<in>set orCriteria.
             ID item \<in> ID ` set (fst (SearchEmails ctx groupName (Some (fst pair)))) \<union>
                        ID ` set (fst (SearchEmails ctx groupName (Some (snd pair))))) list)"
proof (cases "length orCriteria = 0")
  case True
  then show ?thesis by (subst applyOrCriteria.simps) simp
next
  case False
  have "applyOrCriteria ctx groupName list orCriteria =
      filter (\<lambda>item. foldl (\<lambda>m item. m(ID item := True)) (\<lambda>_. False) list (ID item) \<and>
          (\<exists>pair\<in>set orCriteria.
             ID item \<in> ID ` set (fst (SearchEmails ctx groupName (Some (fst pair)))) \<union>
                        ID ` set (fst (SearchEmails ctx groupName (Some (snd pair)))))) list"
    using False
    by (subst applyOrCriteria.simps)
       (simp add: Let_def foldl_append_filter foldl_orPairs)
  also have "\<dots> = filter (\<lambda>item. \<exists>pair\<in>set orCriteria.
             ID item \<in> ID ` set (fst (SearchEmails ctx groupName (Some (fst pair)))) \<union>
                        ID ` set (fst (SearchEmails ctx groupName (Some (snd pair))))) list"
    by (rule filter_cong[OF refl]) (simp add: foldl_mark)
  finally show ?thesis using False by simp
qed

lemma foldl_applyNot_subseq:
  "subseq (foldl (\<lambda>l notCriteria. applyNotCriteria ctx groupName l notCriteria) list nots) list"
proof (induction nots arbitrary: list)
  case Nil
  show ?case by simp
next
  case (Cons n nots)
  have "subseq (applyNotCriteria ctx groupName list n) list"
    by (simp add: applyNotCriteria_filter)
  with Cons[of "applyNotCriteria ctx groupName list n"] show ?case
    by (auto intro: subseq_order.trans)
qed

lemma SearchEmails_error_nil: "snd (SearchEmails ctx groupName criteria) = None"
  by (subst SearchEmails.simps) (simp add: Let_def split: option.split)

lemma fst_Let: "fst (Let a f) = Let a (\<lambda>x. fst (f x))"
  by (simp add: Let_def)

lemma SearchEmails_passes:
  "fst (SearchEmails ctx groupName (Some c)) =
     (let baseList = GetUEListByUID ctx groupName in
      if length baseList = 0 then baseList
      else if isEmptyCriteria c then baseList
      else
        let baseList = (if length (UID c) > 0 then filterByUIDSets baseList (UID c)
                        else baseList);
            baseList = (if length (SeqNum c) > 0 then filterBySeqNumSets baseList (SeqNum c)
                        else baseList);
            baseList = (if needsEmailData c then filterWithEmailData ctx baseList c
                        else baseList);
            baseList = (if length (Flag c) > 0 \<or> length (NotFlag c) > 0
                        then filterByFlags baseList (Flag c) (NotFlag c)
                        else baseList);
            baseList = (if length (NotC c) > 0
                        then foldl (\<lambda>l notCriteria.
                                      applyNotCriteria ctx groupName l notCriteria)
                               baseList (NotC c)
                        else baseList);
            baseList = (if length (OrC c) > 0
                        then applyOrCriteria ctx groupName baseList (OrC c)
                        else baseList)
        in baseList)"
  by (subst SearchEmails.simps) (simp only: fst_Let if_distrib[of fst] option.case fst_conv)

lemma SearchEmails_nil: "fst (SearchEmails ctx groupName None) = GetUEListByUID ctx groupName"
  by (subst SearchEmails.simps) (simp add: Let_def)

lemma SearchEmails_subseq_base:
  "subseq (fst (SearchEmails ctx groupName criteria)) (GetUEListByUID ctx groupName)"
proof (cases criteria)
  case None
  then show ?thesis by (simp add: SearchEmails_nil)
next
  case (Some c)
  define base where "base = GetUEListByUID ctx groupName"
  define l1 where "l1 = (if length (UID c) > 0 then filterByUIDSets base (UID c) else base)"
  define l2 where "l2 = (if length (SeqNum c) > 0 then filterBySeqNumSets l1 (SeqNum c) else l1)"
  define l3 where "l3 = (if needsEmailData c then filterWithEmailData ctx l2 c else l2)"
  define l4 where "l4 = (if length (Flag c) > 0 \<or> length (NotFlag c) > 0
                         then filterByFlags l3 (Flag c) (NotFlag c) else l3)"
  define l5 where "l5 = (if length (NotC c) > 0
                         then foldl (\<lambda>l notCriteria. applyNotCriteria ctx groupName l notCriteria)
                                l4 (NotC c)
                         else l4)"
  define l6 where "l6 = (if length (OrC c) > 0 then applyOrCriteria ctx groupName l5 (OrC c)
                         else l5)"
  have s1: "subseq l1 base" by (simp add: l1_def filterByUIDSets_filter)
  have s2: "subseq l2 l1" by (simp add: l2_def filterBySeqNumSets_filter)
  have s3: "subseq l3 l2" by (simp add: l3_def filterWithEmailData_subseq)
  have s4: "subseq l4 l3" by (simp add: l4_def filterByFlags_filter)
  have s5: "subseq l5 l4" by (simp add: l5_def foldl_applyNot_subseq)
  have s6: "subseq l6 l5" by (simp add: l6_def applyOrCriteria_filter)
  have "subseq l2 base" using s2 s1 by (rule subseq_order.trans)
  with s3 have "subseq l3 base" by (rule subseq_order.trans)
  with s4 have "subseq l4 base" by (rule subseq_order.trans)
  with s5 have "subseq l5 base" by (rule subseq_order.trans)
  with s6 have "subseq l6 base" by (rule subseq_order.trans)
  moreover have "fst (SearchEmails ctx groupName (Some c)) =
      (if length base = 0 then base else if isEmptyCriteria c then base else l6)"
    by (simp only: SearchEmails_passes Let_def base_def l1_def l2_def l3_def l4_def l5_def l6_def)
  ultimately show ?thesis using Some by (simp add: base_def del: length_0_conv)
qed

lemma subseq_set_subset: "subseq xs ys \<Longrightarrow> set xs \<subseteq> set ys"
  by (induction rule: list_emb.induct) auto

lemma subseq_count_list: "subseq xs ys \<Longrightarrow> count_list xs x \<le> count_list ys x"
  by (induction rule: list_emb.induct) auto

lemma IsZero_zeroTime: "IsZero zeroTime"
  by (simp add: IsZero_def zeroTime_def)

lemma SearchEmails_logic_only:
  assumes "length (UID c) = 0" "length (SeqNum c) = 0" "\<not> needsEmailData c"
    "length (Flag c) = 0" "length (NotFlag c) = 0" "\<not> isEmptyCriteria c"
  shows "fst (SearchEmails ctx groupName (Some c)) =
     (if length (GetUEListByUID ctx groupName) = 0 then GetUEListByUID ctx groupName
      else if length (OrC c) > 0
           then applyOrCriteria ctx groupName
                  (if length (NotC c) > 0
                   then foldl (\<lambda>l notCriteria. applyNotCriteria ctx groupName l notCriteria)
                          (GetUEListByUID ctx groupName) (NotC c)
                   else GetUEListByUID ctx groupName) (OrC c)
           else (if length (NotC c) > 0
                 then foldl (\<lambda>l notCriteria. applyNotCriteria ctx groupName l notCriteria)
                        (GetUEListByUID ctx groupName) (NotC c)
                 else GetUEListByUID ctx groupName))"
proof -
  have conds: "(0 < length (UID c)) = False" "(0 < length (SeqNum c)) = False"
    "needsEmailData c = False" "(0 < length (Flag c) \<or> 0 < length (NotFlag c)) = False"
    "isEmptyCriteria c = False"
    using assms by simp_all
  show ?thesis
    by (simp only: SearchEmails_passes Let_def conds if_False)
qed

lemma SearchEmails_criteriaNot:
  "fst (SearchEmails ctx groupName (Some (criteriaNot c))) =
     filter (\<lambda>item. ID item \<notin> ID ` set (fst (SearchEmails ctx groupName (Some c))))
       (GetUEListByUID ctx groupName)"
proof -
  have sel: "NotC (criteriaNot c) = [c]" "OrC (criteriaNot c) = []"
    by (simp_all add: criteriaNot_def)
  have "fst (SearchEmails ctx groupName (Some (criteriaNot c))) =
      (if length (GetUEListByUID ctx groupName) = 0 then GetUEListByUID ctx groupName
       else applyNotCriteria ctx groupName (GetUEListByUID ctx groupName) c)"
    by (subst SearchEmails_logic_only)
       (simp_all add: criteriaNot_def isEmptyCriteria_def needsEmailData_def IsZero_zeroTime)
  then show ?thesis
    by (simp add: applyNotCriteria_filter)
qed

lemma SearchEmails_criteriaOr:
  "fst (SearchEmails ctx groupName (Some (criteriaOr pairs))) =
     applyOrCriteria ctx groupName (GetUEListByUID ctx groupName) pairs"
proof (cases "length pairs = 0")
  case True
  then have "isEmptyCriteria (criteriaOr pairs)"
    by (simp add: criteriaOr_def isEmptyCriteria_def IsZero_zeroTime)
  then have "fst (SearchEmails ctx groupName (Some (criteriaOr pairs))) =
      GetUEListByUID ctx groupName"
    by (simp only: SearchEmails_passes Let_def if_True if_cancel)
  with True show ?thesis by (simp add: applyOrCriteria_filter)
next
  case False
  then have "fst (SearchEmails ctx groupName (Some (criteriaOr pairs))) =
      (if length (GetUEListByUID ctx groupName) = 0 then GetUEListByUID ctx groupName
       else applyOrCriteria ctx groupName (GetUEListByUID ctx groupName) pairs)"
    by (subst SearchEmails_logic_only)
       (simp_all add: criteriaOr_def isEmptyCriteria_def needsEmailData_def IsZero_zeroTime)
  then show ?thesis
    by (simp add: applyOrCriteria_filter)
qed

lemma SearchEmails_criteriaUID:
  "fst (SearchEmails ctx groupName (Some (criteriaUID uidSet))) =
     filter (\<lambda>item. uidSet (word_of_int (ID item))) (GetUEListByUID ctx groupName)"
proof -
  have conds: "(0 < length (UID (criteriaUID uidSet))) = True"
    "(0 < length (SeqNum (criteriaUID uidSet))) = False"
    "needsEmailData (criteriaUID uidSet) = False"
    "(0 < length (Flag (criteriaUID uidSet)) \<or> 0 < length (NotFlag (criteriaUID uidSet))) = False"
    "isEmptyCriteria (criteriaUID uidSet) = False"
    "(0 < length (NotC (criteriaUID uidSet))) = False"
    "(0 < length (OrC (criteriaUID uidSet))) = False"
    by (simp_all add: criteriaUID_def isEmptyCriteria_def needsEmailData_def IsZero_zeroTime)
  have "fst (SearchEmails ctx groupName (Some (criteriaUID uidSet))) =
      (if length (GetUEListByUID ctx groupName) = 0 then GetUEListByUID ctx groupName
       else filterByUIDSets (GetUEListByUID ctx groupName) (UID (criteriaUID uidSet)))"
    by (simp only: SearchEmails_passes Let_def conds if_False if_True)
  then show ?thesis
    by (simp add: filterByUIDSets_filter criteriaUID_def)
qed

section \<open>Properties of the search\<close>

text \<open>
  C5. With a \<open>nil\<close> criteria, or with a criteria in which every field is at its zero or
  empty value, the search returns the list of the mailbox as it is, in membership and in
  order.
\<close>

theorem SearchEmails_identity:
  "criteria = None \<or> (\<exists>c. criteria = Some c \<and> isEmptyCriteria c) \<Longrightarrow>
   SearchEmails ctx groupName criteria = (GetUEListByUID ctx groupName, None)"
proof (cases criteria)
  case None
  then show ?thesis by (subst SearchEmails.simps) (simp add: Let_def)
next
  case (Some c)
  assume "criteria = None \<or> (\<exists>c. criteria = Some c \<and> isEmptyCriteria c)"
  with Some have "isEmptyCriteria c" by simp
  with Some show ?thesis by (subst SearchEmails.simps) (simp add: Let_def)
qed

theorem SearchEmails_identity_witness:
  "isEmptyCriteria emptyCriteria \<and>
   SearchEmails exampleStore ''INBOX'' (Some emptyCriteria) = (exampleList, None)"
proof -
  have e: "isEmptyCriteria emptyCriteria"
    by (simp add: isEmptyCriteria_def emptyCriteria_def zeroTime_def IsZero_def)
  then have "Some emptyCriteria = None \<or> (\<exists>c. Some emptyCriteria = Some c \<and> isEmptyCriteria c)"
    by simp
  from SearchEmails_identity[OF this] e show ?thesis by (simp add: exampleStore_def)
qed

text \<open>
  C6. The result of the search is a subsequence of the list of the mailbox: no pass
  reorders or adds an element, and no element occurs more often in the result than in
  the list of the mailbox.
\<close>

theorem SearchEmails_subsequence:
  "subseq (fst (SearchEmails ctx groupName criteria)) (GetUEListByUID ctx groupName) \<and>
   (\<forall>x. count_list (fst (SearchEmails ctx groupName criteria)) x
          \<le> count_list (GetUEListByUID ctx groupName) x)"
  using SearchEmails_subseq_base[of ctx groupName criteria] by (simp add: subseq_count_list)

text \<open>
  C9. When the lookup of the rows fails, the pass on the stored content returns its
  candidates unchanged, and the search returns without an error.
\<close>

theorem filterWithEmailData_fail_open:
  "emailFind ctx (map EmailID list) = Inl err \<Longrightarrow>
   filterWithEmailData ctx list criteria = list \<and>
   snd (SearchEmails ctx groupName (Some criteria)) = None"
  by (simp add: filterWithEmailData_cases SearchEmails_error_nil)

theorem filterWithEmailData_fail_open_witness:
  "emailFind exampleStore (map EmailID exampleList) = Inl ''lookup failed'' \<and>
   filterWithEmailData exampleStore exampleList
     (Criteria [] [] zeroTime zeroTime zeroTime zeroTime [(''subject'', ''invoice'')] [] [] [] []
        100 0 [] []) = exampleList \<and>
   snd (SearchEmails exampleStore ''INBOX''
     (Some (Criteria [] [] zeroTime zeroTime zeroTime zeroTime [(''subject'', ''invoice'')] [] []
        [] [] 100 0 [] []))) = None"
proof -
  have h: "emailFind exampleStore (map EmailID exampleList) = Inl ''lookup failed''"
    by (simp add: exampleStore_def)
  from filterWithEmailData_fail_open[OF h] h show ?thesis by simp
qed

text \<open>
  C10. The search never returns an error, whatever the criteria and the store, so the
  SEARCH handler never takes its error branch.
\<close>

theorem SearchEmails_never_fails:
  "snd (SearchEmails ctx groupName criteria) = None \<and>
   (\<exists>data. Search ctx currentMailbox kind criteria options = Inr data)"
proof
  show "snd (SearchEmails ctx groupName criteria) = None"
    by (rule SearchEmails_error_nil)
  obtain retList where "SearchEmails ctx currentMailbox criteria = (retList, None)"
    using SearchEmails_error_nil[of ctx currentMailbox criteria]
    by (cases "SearchEmails ctx currentMailbox criteria") simp
  then show "\<exists>data. Search ctx currentMailbox kind criteria options = Inr data"
    by (simp add: Search_def Let_def)
qed

text \<open>
  C7. A node whose only content is one \<open>Not\<close> child partitions the list of the mailbox
  against the result of the child, whatever the child: the two results share no unique
  id and no element, their unique ids together are those of the mailbox, and when the
  unique ids of the mailbox are distinct their elements together are the mailbox.
\<close>

theorem NOT_partitions_base_list:
  "ID ` set (fst (SearchEmails ctx groupName (Some (criteriaNot c)))) \<inter>
     ID ` set (fst (SearchEmails ctx groupName (Some c))) = {} \<and>
   ID ` set (fst (SearchEmails ctx groupName (Some (criteriaNot c)))) \<union>
     ID ` set (fst (SearchEmails ctx groupName (Some c))) = ID ` set (GetUEListByUID ctx groupName) \<and>
   set (fst (SearchEmails ctx groupName (Some (criteriaNot c)))) \<inter>
     set (fst (SearchEmails ctx groupName (Some c))) = {} \<and>
   (distinct (map ID (GetUEListByUID ctx groupName)) \<longrightarrow>
    set (fst (SearchEmails ctx groupName (Some (criteriaNot c)))) \<union>
      set (fst (SearchEmails ctx groupName (Some c))) = set (GetUEListByUID ctx groupName))"
proof -
  define base where "base = GetUEListByUID ctx groupName"
  define E where "E = fst (SearchEmails ctx groupName (Some c))"
  define N where "N = fst (SearchEmails ctx groupName (Some (criteriaNot c)))"
  have N: "N = filter (\<lambda>item. ID item \<notin> ID ` set E) base"
    by (simp add: N_def E_def base_def SearchEmails_criteriaNot)
  have E: "set E \<subseteq> set base"
    unfolding E_def base_def by (rule subseq_set_subset) (rule SearchEmails_subseq_base)
  have 1: "ID ` set N \<inter> ID ` set E = {}" using N by auto
  have 2: "ID ` set N \<union> ID ` set E = ID ` set base" using N E by auto
  have 3: "set N \<inter> set E = {}" using N by auto
  have 4: "set N \<union> set E = set base" if d: "distinct (map ID base)"
  proof
    show "set N \<union> set E \<subseteq> set base" using N E by auto
    show "set base \<subseteq> set N \<union> set E"
    proof
      fix x assume x: "x \<in> set base"
      show "x \<in> set N \<union> set E"
      proof (cases "ID x \<in> ID ` set E")
        case False
        with x N show ?thesis by simp
      next
        case True
        then obtain y where y: "y \<in> set E" "ID y = ID x" by auto
        with E have "y \<in> set base" by auto
        with d x y(2) have "x = y" by (simp add: distinct_map inj_on_def)
        with y show ?thesis by simp
      qed
    qed
  qed
  from 1 2 3 4 show ?thesis unfolding N_def E_def base_def by blast
qed

theorem NOT_partitions_base_list_witness:
  "distinct (map ID (GetUEListByUID exampleStore ''INBOX'')) \<and>
   set (fst (SearchEmails exampleStore ''INBOX''
               (Some (criteriaNot (criteriaUID (\<lambda>uid. uid = 10)))))) \<union>
     set (fst (SearchEmails exampleStore ''INBOX'' (Some (criteriaUID (\<lambda>uid. uid = 10)))))
   = set (GetUEListByUID exampleStore ''INBOX'')"
proof -
  have d: "distinct (map ID (GetUEListByUID exampleStore ''INBOX''))"
    by (simp add: exampleStore_def exampleList_def)
  with NOT_partitions_base_list[of exampleStore "''INBOX''" "criteriaUID (\<lambda>uid. uid = 10)"]
  show ?thesis by blast
qed

section \<open>Composition of the OR pairs\<close>

lemma withoutOr_sel:
  "UID (withoutOr c) = UID c" "SeqNum (withoutOr c) = SeqNum c" "Flag (withoutOr c) = Flag c"
  "NotFlag (withoutOr c) = NotFlag c" "NotC (withoutOr c) = NotC c" "OrC (withoutOr c) = []"
  "needsEmailData (withoutOr c) = needsEmailData c"
  by (simp_all add: withoutOr_def needsEmailData_def)

lemma matchesEmailCriteria_withoutOr:
  "matchesEmailCriteria email (withoutOr c) = matchesEmailCriteria email c"
  by (simp add: matchesEmailCriteria_def withoutOr_def)

lemma filterWithEmailData_withoutOr:
  "filterWithEmailData ctx list (withoutOr c) = filterWithEmailData ctx list c"
  by (simp add: filterWithEmailData_cases matchesEmailCriteria_withoutOr cong: sum.case_cong option.case_cong)

lemma SearchEmails_or_split:
  assumes "length (OrC c) > 0"
  shows "fst (SearchEmails ctx groupName (Some c)) =
           applyOrCriteria ctx groupName (fst (SearchEmails ctx groupName (Some (withoutOr c))))
             (OrC c)"
proof -
  define base where "base = GetUEListByUID ctx groupName"
  define l1 where "l1 = (if length (UID c) > 0 then filterByUIDSets base (UID c) else base)"
  define l2 where "l2 = (if length (SeqNum c) > 0 then filterBySeqNumSets l1 (SeqNum c) else l1)"
  define l3 where "l3 = (if needsEmailData c then filterWithEmailData ctx l2 c else l2)"
  define l4 where "l4 = (if length (Flag c) > 0 \<or> length (NotFlag c) > 0
                         then filterByFlags l3 (Flag c) (NotFlag c) else l3)"
  define l5 where "l5 = (if length (NotC c) > 0
                         then foldl (\<lambda>l notCriteria. applyNotCriteria ctx groupName l notCriteria)
                                l4 (NotC c)
                         else l4)"
  have c1: "isEmptyCriteria c = False" "(0 < length (OrC c)) = True"
    using assms by (simp_all add: isEmptyCriteria_def)
  have A: "fst (SearchEmails ctx groupName (Some c)) =
      (if length base = 0 then base else applyOrCriteria ctx groupName l5 (OrC c))"
    by (simp only: SearchEmails_passes Let_def c1 if_True if_False
          base_def l1_def l2_def l3_def l4_def l5_def)
  have c2: "(0 < length ([] :: (criteria \<times> criteria) list)) = False" by simp
  have B: "fst (SearchEmails ctx groupName (Some (withoutOr c))) =
      (if length base = 0 then base else if isEmptyCriteria (withoutOr c) then base else l5)"
    by (simp only: SearchEmails_passes Let_def withoutOr_sel filterWithEmailData_withoutOr c2
          if_False base_def l1_def l2_def l3_def l4_def l5_def)
  have C: "l5 = base" if "isEmptyCriteria (withoutOr c)"
  proof -
    from that have "length (UID c) = 0" "length (SeqNum c) = 0" "\<not> needsEmailData c"
      "length (Flag c) = 0" "length (NotFlag c) = 0" "length (NotC c) = 0"
      by (simp_all add: isEmptyCriteria_def withoutOr_def needsEmailData_def)
    then show ?thesis
      by (simp add: l5_def l4_def l3_def l2_def l1_def)
  qed
  show ?thesis
  proof (cases "length base = 0")
    case True
    with A B show ?thesis by (simp add: applyOrCriteria_filter)
  next
    case False
    with A B C show ?thesis by (cases "isEmptyCriteria (withoutOr c)") simp_all
  qed
qed

text \<open>
  What the search computes for a node with \<open>Or\<close> pairs: the candidates left by the other
  fields, kept when their unique id is matched by a side of some pair.
\<close>

lemma SearchEmails_or_union:
  "length (OrC c) > 0 \<Longrightarrow>
   fst (SearchEmails ctx groupName (Some c)) =
     filter (\<lambda>item. \<exists>pair\<in>set (OrC c).
               ID item \<in> ID ` set (fst (SearchEmails ctx groupName (Some (fst pair)))) \<union>
                          ID ` set (fst (SearchEmails ctx groupName (Some (snd pair)))))
       (fst (SearchEmails ctx groupName (Some (withoutOr c)))) \<and>
   ID ` set (fst (SearchEmails ctx groupName (Some c))) =
     ID ` set (fst (SearchEmails ctx groupName (Some (withoutOr c)))) \<inter>
     (\<Union>pair\<in>set (OrC c).
        ID ` set (fst (SearchEmails ctx groupName (Some (fst pair)))) \<union>
        ID ` set (fst (SearchEmails ctx groupName (Some (snd pair)))))"
proof -
  assume a: "length (OrC c) > 0"
  have 1: "fst (SearchEmails ctx groupName (Some c)) =
     filter (\<lambda>item. \<exists>pair\<in>set (OrC c).
               ID item \<in> ID ` set (fst (SearchEmails ctx groupName (Some (fst pair)))) \<union>
                          ID ` set (fst (SearchEmails ctx groupName (Some (snd pair)))))
       (fst (SearchEmails ctx groupName (Some (withoutOr c))))"
    using a by (simp add: SearchEmails_or_split[OF a] applyOrCriteria_filter)
  have 2: "ID ` set (filter (\<lambda>item. ID item \<in> S) xs) = ID ` set xs \<inter> S" for S xs
    by auto
  show ?thesis
    apply (rule conjI[OF 1])
    apply (subst 1)
    apply (subst 2[symmetric])
    apply simp
    done
qed

lemma SearchEmails_emptyCriteria:
  "fst (SearchEmails ctx groupName (Some emptyCriteria)) = GetUEListByUID ctx groupName"
proof -
  have "isEmptyCriteria emptyCriteria"
    by (simp add: isEmptyCriteria_def emptyCriteria_def IsZero_zeroTime)
  then show ?thesis
    by (simp only: SearchEmails_passes Let_def if_True if_cancel)
qed

lemma exampleOrNode_sel:
  "OrC exampleOrNode =
     [(criteriaUID (\<lambda>uid. uid = 10), criteriaUID (\<lambda>uid. uid = 10)),
      (criteriaUID (\<lambda>uid. uid = 11), criteriaUID (\<lambda>uid. uid = 11))]"
  "withoutOr exampleOrNode = emptyCriteria"
  by (simp_all add: exampleOrNode_def criteriaOr_def withoutOr_def emptyCriteria_def)

lemma example_uid10:
  "fst (SearchEmails exampleStore ''INBOX'' (Some (criteriaUID (\<lambda>uid. uid = 10)))) =
     [\<lparr>ID = 10, SerialNumber = 1, EmailID = 7, IsRead = 0, Status = 0\<rparr>]"
  by (simp add: SearchEmails_criteriaUID exampleStore_def exampleList_def)

lemma example_uid11:
  "fst (SearchEmails exampleStore ''INBOX'' (Some (criteriaUID (\<lambda>uid. uid = 11)))) =
     [\<lparr>ID = 11, SerialNumber = 2, EmailID = 8, IsRead = 1, Status = 0\<rparr>]"
  by (simp add: SearchEmails_criteriaUID exampleStore_def exampleList_def)

lemma example_or:
  "fst (SearchEmails exampleStore ''INBOX'' (Some exampleOrNode)) = exampleList"
  unfolding exampleOrNode_def
  by (simp add: SearchEmails_criteriaOr applyOrCriteria_filter example_uid10 example_uid11)
     (simp add: exampleStore_def exampleList_def)

text \<open>
  C1. In a node with several \<open>Or\<close> pairs, every pair has to hold: the result is the
  intersection over the pairs of the candidates matched by a side of the pair. The
  search does otherwise on the mailbox of two messages and the node of two pairs above:
  it returns both messages, where the intersection over the pairs is empty.
\<close>

theorem OR_pairs_union_at_example:
  "fst (SearchEmails exampleStore ''INBOX'' (Some exampleOrNode)) = exampleList \<and>
   ID ` set (fst (SearchEmails exampleStore ''INBOX'' (Some exampleOrNode))) \<noteq>
   (\<Inter>pair\<in>set (OrC exampleOrNode).
      ID ` set (fst (SearchEmails exampleStore ''INBOX'' (Some (withoutOr exampleOrNode)))) \<inter>
      (ID ` set (fst (SearchEmails exampleStore ''INBOX'' (Some (fst pair)))) \<union>
       ID ` set (fst (SearchEmails exampleStore ''INBOX'' (Some (snd pair))))))"
proof -
  have "(\<Inter>pair\<in>set (OrC exampleOrNode).
      ID ` set (fst (SearchEmails exampleStore ''INBOX'' (Some (withoutOr exampleOrNode)))) \<inter>
      (ID ` set (fst (SearchEmails exampleStore ''INBOX'' (Some (fst pair)))) \<union>
       ID ` set (fst (SearchEmails exampleStore ''INBOX'' (Some (snd pair)))))) = {}"
    by (simp add: exampleOrNode_sel SearchEmails_emptyCriteria example_uid10 example_uid11)
       (auto simp: exampleStore_def exampleList_def)
  moreover have "ID ` set (fst (SearchEmails exampleStore ''INBOX'' (Some exampleOrNode))) = {10, 11}"
    by (simp add: example_or exampleList_def)
  ultimately show ?thesis by (simp add: example_or)
qed

section \<open>Date filters\<close>

lemma div_less_iff_int: "0 < n \<Longrightarrow> (a div n < d) = (a < d * n)" for a n d :: int
proof -
  assume n: "0 < n"
  have eq: "a = a div n * n + a mod n" by simp
  have m: "0 \<le> a mod n" "a mod n < n" using n by simp_all
  show ?thesis
  proof
    assume "a div n < d"
    then have "a div n + 1 \<le> d" by simp
    with n have "(a div n + 1) * n \<le> d * n" by (simp only: mult_right_mono less_imp_le)
    then have "a div n * n + n \<le> d * n" by (simp add: algebra_simps)
    with eq m show "a < d * n" by linarith
  next
    assume lt: "a < d * n"
    show "a div n < d"
    proof (rule ccontr)
      assume "\<not> a div n < d"
      then have "d \<le> a div n" by simp
      with n have "d * n \<le> a div n * n" by (simp only: mult_right_mono less_imp_le)
      with eq m lt show False by linarith
    qed
  qed
qed

lemma time_Before_truncate:
  "zoneOffset t = zoneOffset u \<Longrightarrow>
   time_Before t (truncateToDate u) = (civilDay t < civilDay u)"
  by (simp add: time_Before_def truncateToDate_def time_Date_def civilDay_def div_less_iff_int
        algebra_simps)

text \<open>
  When the stored time and the criterion carry the same zone, the filters compare
  calendar dates: since is inclusive, before is strict.
\<close>

lemma matches_since_same_zone:
  "\<not> IsZero s \<Longrightarrow> zoneOffset (CreateTime email) = zoneOffset s \<Longrightarrow>
   matchesEmailCriteria email (criteriaSince s) = (civilDay s \<le> civilDay (CreateTime email))"
  by (auto simp: matchesEmailCriteria_def criteriaSince_def IsZero_zeroTime time_Before_truncate)

lemma matches_before_same_zone:
  "\<not> IsZero b \<Longrightarrow> zoneOffset (CreateTime email) = zoneOffset b \<Longrightarrow>
   matchesEmailCriteria email (criteriaBefore b) = (civilDay (CreateTime email) < civilDay b)"
  by (auto simp: matchesEmailCriteria_def criteriaBefore_def IsZero_zeroTime time_Before_truncate)

text \<open>
  C8. The date filters compare calendar dates, the time of day and the zone dropped: a
  message whose internal date is the since date passes, one whose internal date is the
  before date fails. The search does otherwise when the zones differ: the example
  message is dated 2 January in its zone, yet it fails the filter \<open>SINCE 2-Jan-2024\<close> and
  passes the filter \<open>BEFORE 2-Jan-2024\<close>.
\<close>

theorem date_filter_other_zone:
  "civilDay (CreateTime exampleEmail) = civilDay exampleDate \<and>
   \<not> matchesEmailCriteria exampleEmail (criteriaSince exampleDate) \<and>
   matchesEmailCriteria exampleEmail (criteriaBefore exampleDate)"
  by (simp add: matchesEmailCriteria_def criteriaSince_def criteriaBefore_def exampleEmail_def
        exampleDate_def civilDay_def IsZero_def zeroTime_def time_Before_def truncateToDate_def
        time_Date_def)

section \<open>Properties of the FETCH response\<close>

lemma foldl_snoc_map: "foldl (\<lambda>acc x. acc @ [f x]) acc0 xs = acc0 @ map f xs"
  by (induction xs arbitrary: acc0) simp_all

lemma bsAlternative_children:
  "\<exists>children. bsAlternative textPart htmlPart = BodyStructureMultiPart ''alternative'' children True \<and>
              children \<noteq> []"
  by (cases textPart; cases htmlPart) (simp_all add: bsAlternative_def)

text \<open>
  C3 (amended). The body structure is always a \<open>mixed\<close> multipart whose first child is the
  \<open>alternative\<close> multipart (never without a child) and whose other children are the
  attachments; with no attachment the \<open>alternative\<close> part is its only child.
\<close>

theorem buildBodyStructure_always_mixed:
  "buildBodyStructure traEmail extended =
     BodyStructureMultiPart ''mixed''
       (bsAlternative
          (if length (Text_p traEmail) > 0
           then Some (bsTextPlain (of_nat (length (Text_p traEmail)))
                        (countNewlines (Text_p traEmail) + 1))
           else None)
          (if length (HTML traEmail) > 0
           then Some (bsTextHTML (of_nat (length (HTML traEmail)))
                        (countNewlines (HTML traEmail) + 1))
           else None) #
        map (\<lambda>attachment. bsAttachment (Filename attachment) (ContentType attachment)
                             (of_nat (length (Content attachment))) ''base64'')
          (Attachments traEmail))
       extended \<and>
   (\<forall>textPart htmlPart. \<exists>children.
      bsAlternative textPart htmlPart = BodyStructureMultiPart ''alternative'' children True \<and>
      children \<noteq> [])"
proof
  show "buildBodyStructure traEmail extended =
     BodyStructureMultiPart ''mixed''
       (bsAlternative
          (if length (Text_p traEmail) > 0
           then Some (bsTextPlain (of_nat (length (Text_p traEmail)))
                        (countNewlines (Text_p traEmail) + 1))
           else None)
          (if length (HTML traEmail) > 0
           then Some (bsTextHTML (of_nat (length (HTML traEmail)))
                        (countNewlines (HTML traEmail) + 1))
           else None) #
        map (\<lambda>attachment. bsAttachment (Filename attachment) (ContentType attachment)
                             (of_nat (length (Content attachment))) ''base64'')
          (Attachments traEmail))
       extended"
    by (simp add: buildBodyStructure_def bsMixedWithAttachments_def Let_def foldl_snoc_map)
  show "\<forall>textPart htmlPart. \<exists>children.
      bsAlternative textPart htmlPart = BodyStructureMultiPart ''alternative'' children True \<and>
      children \<noteq> []"
    using bsAlternative_children by blast
qed

text \<open>
  The claim as first stated fails: with no attachment the \<open>alternative\<close> part does not
  stand alone.
\<close>

theorem body_structure_no_attachments_counterexample:
  "Attachments exampleParsed = [] \<and>
   buildBodyStructure exampleParsed False =
     BodyStructureMultiPart ''mixed'' [bsAlternative (Some (bsTextPlain 2 1)) None] False \<and>
   buildBodyStructure exampleParsed False \<noteq> bsAlternative (Some (bsTextPlain 2 1)) None"
  by (simp add: buildBodyStructure_def bsMixedWithAttachments_def bsAlternative_def Let_def
        exampleParsed_def countNewlines_def)

lemma runSteps_no_panic: "Panic \<notin> set (runSteps steps) \<Longrightarrow> runSteps steps = concat steps"
  by (induction steps) (auto split: if_splits)

lemma count_list_concat:
  "count_list (concat xss) x = sum_list (map (\<lambda>xs. count_list xs x) xss)"
  by (induction xss) simp_all

lemma count_writeSection:
  "count_list (writeSection env email traEmail s) (MakeRead (Id_email (Email email)) True) =
     (if Peek s then 0 else 1)"
  by (simp add: writeSection_def Let_def split: option.split)

lemma sum_list_nonpeek:
  "sum_list (map (\<lambda>s. if Peek s then 0 else (1::nat)) sections) =
     length (filter (\<lambda>s. \<not> Peek s) sections)"
  by (induction sections) simp_all

text \<open>
  C2 (amended). In the response for one message that is written to its end, the store is
  asked to mark the message as read once for every body section of the request that is
  not marked peek.
\<close>

theorem MakeRead_once_per_section:
  "Panic \<notin> set (write_fetch env [email] options) \<Longrightarrow>
   count_list (write_fetch env [email] options) (MakeRead (Id_email (Email email)) True) =
     length (filter (\<lambda>section. \<not> Peek section) (BodySection options))"
proof -
  assume np: "Panic \<notin> set (write_fetch env [email] options)"
  define traEmail where "traEmail = NewEmailFromModel env (Email email)"
  define pre where "pre =
        [[CreateMessage (ToUint32 (SerialNumber_r email))],
          (if UID_opt options then [WriteUID (word_of_int (UeId email))] else []),
          (if Envelope options then [WriteEnvelope (buildEnvelope env email traEmail)] else []),
          (case BodyStructure options of
             None \<Rightarrow> []
           | Some extended \<Rightarrow> [WriteBodyStructure (buildBodyStructure traEmail extended)]),
          (if RFC822Size options then [WriteRFC822Size (int (length (BuildBytes traEmail)))]
           else []),
          (if Flags options
           then (if IsRead_r email = 1 then [WriteFlags [FlagSeen]] else [WriteFlags []])
           else []),
          (if InternalDate options then [WriteInternalDate (CreateTime (Email email))] else [])]"
  have w: "write_fetch env [email] options =
      runSteps (pre @ map (writeSection env email traEmail) (BodySection options) @ [[Close]])"
    by (simp add: write_fetch_def writeEmail_def Let_def pre_def traEmail_def
          cong: option.case_cong)
  have "Panic \<notin> set (runSteps
      (pre @ map (writeSection env email traEmail) (BodySection options) @ [[Close]]))"
    using np[unfolded w] .
  then have "runSteps (pre @ map (writeSection env email traEmail) (BodySection options) @ [[Close]])
      = concat (pre @ map (writeSection env email traEmail) (BodySection options) @ [[Close]])"
    by (rule runSteps_no_panic)
  with w have c: "write_fetch env [email] options =
      concat (pre @ map (writeSection env email traEmail) (BodySection options) @ [[Close]])"
    by (simp only:)
  have p: "sum_list (map (\<lambda>xs. count_list xs (MakeRead (Id_email (Email email)) True)) pre) = 0"
    by (simp add: pre_def split: option.split)
  show ?thesis
    by (simp add: c count_list_concat p count_writeSection comp_def sum_list_nonpeek)
qed

theorem MakeRead_once_per_section_witness:
  "Panic \<notin> set (write_fetch exampleEnv [exampleResponse] exampleOptions) \<and>
   count_list (write_fetch exampleEnv [exampleResponse] exampleOptions)
     (MakeRead (Id_email (Email exampleResponse)) True) = 2"
proof -
  have np: "Panic \<notin> set (write_fetch exampleEnv [exampleResponse] exampleOptions)"
    by (simp add: write_fetch_def writeEmail_def writeSection_def Let_def exampleEnv_def
        exampleResponse_def exampleOptions_def exampleSection_def exampleParsed_def
        exampleEmail_def)
  from MakeRead_once_per_section[OF np] np show ?thesis
    by (simp add: exampleOptions_def exampleSection_def)
qed

text \<open>
  The claim as first stated fails: two sections that are not marked peek give two calls
  for the one message.
\<close>

theorem MakeRead_twice_counterexample:
  "count_list (write_fetch exampleEnv [exampleResponse] exampleOptions)
     (MakeRead (Id_email (Email exampleResponse)) True) = 2"
  by (simp add: write_fetch_def writeEmail_def writeSection_def Let_def exampleEnv_def
        exampleResponse_def exampleOptions_def exampleSection_def exampleParsed_def
        exampleEmail_def)

lemma ToLower_literals:
  "ToLower ''date'' = ''date''" "ToLower ''subject'' = ''subject''" "ToLower ''from'' = ''from''"
  "ToLower ''sender'' = ''sender''" "ToLower ''reply-to'' = ''reply-to''"
  "ToLower ''to'' = ''to''" "ToLower ''cc'' = ''cc''" "ToLower ''bcc'' = ''bcc''"
  "ToLower ''message-id'' = ''message-id''" "ToLower ''content-type'' = ''content-type''"
  by (simp_all add: ToLower_def toLowerChar_def)

lemma writeHeaderField_date:
  "writeHeaderField env email traEmail emailContent ''date'' =
     Some (''Date: '' @ FormatRFC1123Z env (CreateTime (Email email)) @ CRLF)"
  by (simp add: writeHeaderField_def ToLower_literals)

lemma writeHeaderField_subject:
  "writeHeaderField env email traEmail emailContent ''subject'' =
     Some (''Subject: '' @ QEncode env (Subject (Email email)) @ CRLF)"
  by (simp add: writeHeaderField_def ToLower_literals)

lemma writeHeaderField_from:
  "writeHeaderField env email traEmail emailContent ''from'' =
     Some (if FromName (Email email) \<noteq> []
           then ''From: '' @ QEncode env (FromName (Email email)) @ '' <'' @
                FromAddress (Email email) @ ''>'' @ CRLF
           else ''From: '' @ FromAddress (Email email) @ CRLF)"
  by (simp add: writeHeaderField_def ToLower_literals)

lemma writeHeaderField_sender:
  "writeHeaderField env email traEmail emailContent ''sender'' =
     Some (if FromName (Email email) \<noteq> []
           then ''Sender: '' @ QEncode env (FromName (Email email)) @ '' <'' @
                FromAddress (Email email) @ ''>'' @ CRLF
           else ''Sender: '' @ FromAddress (Email email) @ CRLF)"
  by (simp add: writeHeaderField_def ToLower_literals)

lemma writeHeaderField_to:
  "writeHeaderField env email traEmail emailContent ''to'' =
     Some (if BuildTo2String traEmail \<noteq> [] then ''To: '' @ BuildTo2String traEmail @ CRLF
           else [])"
  by (simp add: writeHeaderField_def ToLower_literals Let_def)

lemma writeHeaderField_cc:
  "writeHeaderField env email traEmail emailContent ''cc'' =
     Some (if length (Cc_p traEmail) > 0 then ''Cc: '' @ BuildCc2String traEmail @ CRLF else [])"
  by (simp add: writeHeaderField_def ToLower_literals)

lemma writeHeaderField_message_id:
  "writeHeaderField env email traEmail emailContent ''message-id'' =
     Some (''Message-ID: <'' @ itoa (Id_email (Email email)) @ ''@'' @ Domain env @ ''>'' @ CRLF)"
  by (simp add: writeHeaderField_def ToLower_literals)

lemma writeHeaderField_content_type:
  "writeHeaderField env email traEmail emailContent ''content-type'' =
     Some (if length (SplitN emailContent CRLF 3) \<ge> 2
           then SplitN emailContent CRLF 3 ! 0 @ SplitN emailContent CRLF 3 ! 1 @ CRLF
           else [])"
  by (simp add: writeHeaderField_def ToLower_literals Let_def)

text \<open>
  C4 (amended). A header section that names no field gives seven fields, in this order
  and each under its rule of presence: date, subject, from, to, cc, message-id and
  content-type; then the empty line. Sender, reply-to and bcc are not among them.
\<close>

theorem header_default_seven_fields:
  "headerBlock env email traEmail emailContent [] =
     Some (''Date: '' @ FormatRFC1123Z env (CreateTime (Email email)) @ CRLF @
           ''Subject: '' @ QEncode env (Subject (Email email)) @ CRLF @
           (if FromName (Email email) \<noteq> []
            then ''From: '' @ QEncode env (FromName (Email email)) @ '' <'' @
                 FromAddress (Email email) @ ''>'' @ CRLF
            else ''From: '' @ FromAddress (Email email) @ CRLF) @
           (if BuildTo2String traEmail \<noteq> [] then ''To: '' @ BuildTo2String traEmail @ CRLF
            else []) @
           (if length (Cc_p traEmail) > 0 then ''Cc: '' @ BuildCc2String traEmail @ CRLF
            else []) @
           ''Message-ID: <'' @ itoa (Id_email (Email email)) @ ''@'' @ Domain env @ ''>'' @ CRLF @
           (if length (SplitN emailContent CRLF 3) \<ge> 2
            then SplitN emailContent CRLF 3 ! 0 @ SplitN emailContent CRLF 3 ! 1 @ CRLF
            else []) @
           CRLF) \<and>
   (\<exists>b. headerBlock env email traEmail (BuildBytes traEmail) [] = Some b \<and>
        writeSection env email traEmail
          \<lparr>Specifier = PartSpecifierHeader, Part = part, HeaderFields = [], Peek = True\<rparr> =
        [WriteBodySection
           \<lparr>Specifier = PartSpecifierHeader, Part = part, HeaderFields = [], Peek = True\<rparr>
           (int (length b)) b])"
proof
  show block: "headerBlock env email traEmail emailContent [] =
     Some (''Date: '' @ FormatRFC1123Z env (CreateTime (Email email)) @ CRLF @
           ''Subject: '' @ QEncode env (Subject (Email email)) @ CRLF @
           (if FromName (Email email) \<noteq> []
            then ''From: '' @ QEncode env (FromName (Email email)) @ '' <'' @
                 FromAddress (Email email) @ ''>'' @ CRLF
            else ''From: '' @ FromAddress (Email email) @ CRLF) @
           (if BuildTo2String traEmail \<noteq> [] then ''To: '' @ BuildTo2String traEmail @ CRLF
            else []) @
           (if length (Cc_p traEmail) > 0 then ''Cc: '' @ BuildCc2String traEmail @ CRLF
            else []) @
           ''Message-ID: <'' @ itoa (Id_email (Email email)) @ ''@'' @ Domain env @ ''>'' @ CRLF @
           (if length (SplitN emailContent CRLF 3) \<ge> 2
            then SplitN emailContent CRLF 3 ! 0 @ SplitN emailContent CRLF 3 ! 1 @ CRLF
            else []) @
           CRLF)" for emailContent
    unfolding headerBlock_def
    by (simp add: Let_def
        writeHeaderField_date writeHeaderField_subject writeHeaderField_from writeHeaderField_to
        writeHeaderField_cc writeHeaderField_message_id writeHeaderField_content_type)
  obtain b where b: "headerBlock env email traEmail (BuildBytes traEmail) [] = Some b"
    using block[of "BuildBytes traEmail"] by blast
  then have "writeSection env email traEmail
          \<lparr>Specifier = PartSpecifierHeader, Part = part, HeaderFields = [], Peek = True\<rparr> =
        [WriteBodySection
           \<lparr>Specifier = PartSpecifierHeader, Part = part, HeaderFields = [], Peek = True\<rparr>
           (int (length b)) b]"
    by (simp add: writeSection_def Let_def)
  with b show "\<exists>b. headerBlock env email traEmail (BuildBytes traEmail) [] = Some b \<and>
        writeSection env email traEmail
          \<lparr>Specifier = PartSpecifierHeader, Part = part, HeaderFields = [], Peek = True\<rparr> =
        [WriteBodySection
           \<lparr>Specifier = PartSpecifierHeader, Part = part, HeaderFields = [], Peek = True\<rparr>
           (int (length b)) b]"
    by blast
qed

lemma SplitN_example:
  "SplitN (BuildBytes exampleParsed) CRLF 3
     = [''Content-Type: text/plain;'', '' charset=utf-8'', CRLF @ ''hi'']"
  by (simp add: exampleParsed_def CRLF_def numeral_3_eq_3)

lemma itoa_7: "itoa 7 = ''7''"
  by (simp add: itoa_def digitsOf.simps)

text \<open>
  The claim as first stated fails: on the example message the block for no named field
  differs from the block for the ten fields, which has the sender line.
\<close>

theorem header_ten_fields_counterexample:
  "headerBlock exampleEnv exampleResponse exampleParsed (BuildBytes exampleParsed) [] =
     Some (''Date: Tue, 02 Jan 2024 00:30:00 +0800'' @ CRLF @
           ''Subject: Invoice'' @ CRLF @
           ''From: A <a@b.com>'' @ CRLF @
           ''To: C <c@d.com>'' @ CRLF @
           ''Message-ID: <7@example.com>'' @ CRLF @
           ''Content-Type: text/plain; charset=utf-8'' @ CRLF @
           CRLF) \<and>
   headerBlock exampleEnv exampleResponse exampleParsed (BuildBytes exampleParsed) tenFields =
     Some (''Date: Tue, 02 Jan 2024 00:30:00 +0800'' @ CRLF @
           ''Subject: Invoice'' @ CRLF @
           ''From: A <a@b.com>'' @ CRLF @
           ''Sender: A <a@b.com>'' @ CRLF @
           ''To: C <c@d.com>'' @ CRLF @
           ''Message-ID: <7@example.com>'' @ CRLF @
           ''Content-Type: text/plain; charset=utf-8'' @ CRLF @
           CRLF) \<and>
   headerBlock exampleEnv exampleResponse exampleParsed (BuildBytes exampleParsed) [] \<noteq>
   headerBlock exampleEnv exampleResponse exampleParsed (BuildBytes exampleParsed) tenFields"
proof -
  have 1: "headerBlock exampleEnv exampleResponse exampleParsed (BuildBytes exampleParsed) [] =
     Some (''Date: Tue, 02 Jan 2024 00:30:00 +0800'' @ CRLF @
           ''Subject: Invoice'' @ CRLF @
           ''From: A <a@b.com>'' @ CRLF @
           ''To: C <c@d.com>'' @ CRLF @
           ''Message-ID: <7@example.com>'' @ CRLF @
           ''Content-Type: text/plain; charset=utf-8'' @ CRLF @
           CRLF)"
    unfolding headerBlock_def
    by (simp add: Let_def writeHeaderField_date writeHeaderField_subject writeHeaderField_from
          writeHeaderField_to writeHeaderField_cc writeHeaderField_message_id
          writeHeaderField_content_type SplitN_example itoa_7)
       (simp add: exampleEnv_def exampleResponse_def exampleEmail_def exampleParsed_def itoa_7)
  have rt: "writeHeaderField exampleEnv exampleResponse exampleParsed c ''reply-to'' = Some []"
    for c
    by (simp add: writeHeaderField_def ToLower_literals exampleParsed_def)
  have bcc: "writeHeaderField exampleEnv exampleResponse exampleParsed c ''bcc'' = Some []"
    for c
    by (simp add: writeHeaderField_def ToLower_literals exampleParsed_def)
  have 2: "headerBlock exampleEnv exampleResponse exampleParsed (BuildBytes exampleParsed) tenFields =
     Some (''Date: Tue, 02 Jan 2024 00:30:00 +0800'' @ CRLF @
           ''Subject: Invoice'' @ CRLF @
           ''From: A <a@b.com>'' @ CRLF @
           ''Sender: A <a@b.com>'' @ CRLF @
           ''To: C <c@d.com>'' @ CRLF @
           ''Message-ID: <7@example.com>'' @ CRLF @
           ''Content-Type: text/plain; charset=utf-8'' @ CRLF @
           CRLF)"
    unfolding headerBlock_def tenFields_def
    by (simp add: Let_def writeHeaderField_date writeHeaderField_subject writeHeaderField_from
          writeHeaderField_sender rt bcc
          writeHeaderField_to writeHeaderField_cc writeHeaderField_message_id
          writeHeaderField_content_type SplitN_example itoa_7)
       (simp add: exampleEnv_def exampleResponse_def exampleEmail_def exampleParsed_def itoa_7)
  have 3: "headerBlock exampleEnv exampleResponse exampleParsed (BuildBytes exampleParsed) [] \<noteq>
   headerBlock exampleEnv exampleResponse exampleParsed (BuildBytes exampleParsed) tenFields"
    unfolding 1 2 by (simp add: CRLF_def)
  from 1 2 3 show ?thesis by blast
qed

end
